theory Spec2Isabelle
  imports Complex_Main
begin

section \<open>Ordered maps with default-on-lookup\<close>

text \<open>
  \<^verbatim>\<open>std::map<int, V>\<close> is an association list kept in key order. \<open>map_of\<close> reads an
  entry. \<open>map_index\<close> is \<^verbatim>\<open>operator[]\<close>: a missing key gets a default-constructed entry
  before its value is handed out.
\<close>

type_synonym 'v std_map = "(int \<times> 'v) list"

fun map_put :: "int \<Rightarrow> 'v \<Rightarrow> 'v std_map \<Rightarrow> 'v std_map" where
  "map_put k v [] = [(k, v)]"
| "map_put k v ((k', v') # m) =
     (if k < k' then (k, v) # (k', v') # m
      else if k = k' then (k, v) # m
      else (k', v') # map_put k v m)"

definition map_index :: "'v \<Rightarrow> int \<Rightarrow> 'v std_map \<Rightarrow> 'v \<times> 'v std_map" where
  "map_index dflt k m =
     (case map_of m k of
        Some v \<Rightarrow> (v, m)
      | None \<Rightarrow> (dflt, map_put k dflt m))"

definition map_erase :: "int \<Rightarrow> 'v std_map \<Rightarrow> 'v std_map" where
  "map_erase k m = filter (\<lambda>p. fst p \<noteq> k) m"

definition map_clear :: "'v std_map \<Rightarrow> 'v std_map" where
  "map_clear m = []"

definition map_keys :: "'v std_map \<Rightarrow> int list" where
  "map_keys m = map fst m"

section \<open>Transforms and their animation\<close>

text \<open>
  \<^verbatim>\<open>frame_transform\<close> as stage.cpp reads it: index 1 of \<^verbatim>\<open>fill_scale\<close> and of
  \<^verbatim>\<open>fill_translation\<close> is the second component of the pair. A finite double is read as the
  real number it denotes.
\<close>

record frame_transform =
  fill_translation :: "real \<times> real"
  fill_scale :: "real \<times> real"
  opacity :: real
  is_key :: bool

text \<open>
  Modelled from the spec: the default \<^verbatim>\<open>frame_transform\<close> (frame_transform.h is not part of the
  sources at hand) is the identity transform.
\<close>

definition default_frame_transform :: frame_transform where
  "default_frame_transform =
     \<lparr>fill_translation = (0, 0), fill_scale = (1, 1), opacity = 1, is_key = False\<rparr>"

text \<open>
  Modelled from the spec: \<^verbatim>\<open>tweened_transform\<close> (frame_transform.h is not part of the sources at
  hand) holds source, destination, duration and elapsed ticks and an easing; the easing is
  carried as the interpolation it selects, from elapsed and total ticks, source and
  destination.
\<close>

record tweened_transform =
  source :: frame_transform
  dest :: frame_transform
  duration :: nat
  time :: nat
  tweener :: "nat \<Rightarrow> nat \<Rightarrow> frame_transform \<Rightarrow> frame_transform \<Rightarrow> frame_transform"

text \<open>
  Modelled from the spec: the linear easing, weighting source and destination by the share of
  the duration that has elapsed. It is the easing of a default-constructed
  \<^verbatim>\<open>tweened_transform\<close>, which has duration 0 and rests at its destination.
\<close>

definition linear_tweener ::
    "nat \<Rightarrow> nat \<Rightarrow> frame_transform \<Rightarrow> frame_transform \<Rightarrow> frame_transform" where
  "linear_tweener t d a b =
     (let w = (if d = 0 then 1 else real t / real d);
          mix = (\<lambda>x y. x + (y - x) * w)
      in \<lparr>fill_translation = (mix (fst (fill_translation a)) (fst (fill_translation b)),
                              mix (snd (fill_translation a)) (snd (fill_translation b))),
          fill_scale = (mix (fst (fill_scale a)) (fst (fill_scale b)),
                        mix (snd (fill_scale a)) (snd (fill_scale b))),
          opacity = mix (opacity a) (opacity b),
          is_key = (is_key a \<or> is_key b)\<rparr>)"

text \<open>
  Modelled from the spec: the default-constructed \<^verbatim>\<open>tweened_transform\<close> rests at the identity
  transform.
\<close>

definition default_tweened_transform :: tweened_transform where
  "default_tweened_transform =
     \<lparr>source = default_frame_transform, dest = default_frame_transform,
      duration = 0, time = 0, tweener = linear_tweener\<rparr>"

text \<open>
  Modelled from the spec: the constructor \<^verbatim>\<open>tweened_transform(source, dest, duration, tween)\<close>
  starts with no tick elapsed.
\<close>

definition make_tweened_transform ::
    "frame_transform \<Rightarrow> frame_transform \<Rightarrow> nat
       \<Rightarrow> (nat \<Rightarrow> nat \<Rightarrow> frame_transform \<Rightarrow> frame_transform \<Rightarrow> frame_transform)
       \<Rightarrow> tweened_transform" where
  "make_tweened_transform src dst dur tw =
     \<lparr>source = src, dest = dst, duration = dur, time = 0, tweener = tw\<rparr>"

text \<open>
  Modelled from the spec: \<^verbatim>\<open>fetch\<close> is the interpolated snapshot, the destination once the
  elapsed ticks have reached the duration.
\<close>

definition fetch :: "tweened_transform \<Rightarrow> frame_transform" where
  "fetch tt =
     (if time tt = duration tt then dest tt
      else tweener tt (time tt) (duration tt) (source tt) (dest tt))"

text \<open>
  Modelled from the spec: \<^verbatim>\<open>fetch_and_tick\<close> advances the elapsed ticks, clamped to the
  duration, and returns the snapshot.
\<close>

definition fetch_and_tick :: "nat \<Rightarrow> tweened_transform \<Rightarrow> frame_transform \<times> tweened_transform" where
  "fetch_and_tick num tt =
     (let tt' = tt\<lparr>time := min (time tt + num) (duration tt)\<rparr>
      in (fetch tt', tt'))"

section \<open>Formats, flags and frames\<close>

text \<open>
  Modelled from the spec: the field modes and the fields of the format descriptor that the
  Stage and the Mixer read (video_format.h is not part of the sources at hand).
\<close>

datatype field_mode = progressive | upper | lower

record video_format_desc =
  width :: nat
  height :: nat
  square_width :: nat
  square_height :: nat
  field_mode :: field_mode

text \<open>
  Modelled from the spec: the producer flags (frame_producer.h is not part of the sources at
  hand) are a bit set over \<^verbatim>\<open>deinterlace\<close> and \<^verbatim>\<open>alpha_only\<close>; \<^verbatim>\<open>none\<close> is the empty set and
  \<^verbatim>\<open>|=\<close> is union.
\<close>

datatype flag = deinterlace | alpha_only

type_synonym flags = "flag set"

text \<open>
  Modelled from the spec: \<^verbatim>\<open>draw_frame\<close> (draw_frame.h is not part of the sources at hand) is kept
  symbolic: the empty frame, a raw frame wrapped with the transform attached to it, and the
  interlacing of two frames under a field mode.
\<close>

datatype 'r draw_frame =
    empty_frame
  | wrap 'r frame_transform
  | interlace "'r draw_frame" "'r draw_frame" field_mode

text \<open>An exception, with what it says.\<close>

datatype error = exception string

section \<open>The Stage\<close>

text \<open>
  The layer is an external collaborator (layer.h is not part of the sources at hand): its type
  is a parameter and its operations are passed in. \<open>layer_receive\<close> either throws or returns
  the raw frame and the layer as it has become.
\<close>

record ('l, 'p, 'r, 'i) layer_ops =
  layer_default :: 'l
  layer_load :: "'l \<Rightarrow> 'p \<Rightarrow> bool \<Rightarrow> int \<Rightarrow> 'l"
  layer_pause :: "'l \<Rightarrow> 'l"
  layer_play :: "'l \<Rightarrow> 'l"
  layer_stop :: "'l \<Rightarrow> 'l"
  layer_receive :: "'l \<Rightarrow> flags \<Rightarrow> error + ('r \<times> 'l)"
  layer_foreground :: "'l \<Rightarrow> 'p"
  layer_background :: "'l \<Rightarrow> 'p"
  layer_info :: "'l \<Rightarrow> 'i"

text \<open>
  \<^verbatim>\<open>stage::impl\<close>: the two maps, and the log that \<^verbatim>\<open>CASPAR_LOG_CURRENT_EXCEPTION\<close> writes to.
\<close>

record 'l stage_state =
  layers :: "'l std_map"
  transforms :: "tweened_transform std_map"
  logged :: "error list"

subsection \<open>The task bodies\<close>

definition clear :: "int \<Rightarrow> 'l stage_state \<Rightarrow> 'l stage_state" where
  "clear index s = s\<lparr>layers := map_erase index (layers s)\<rparr>"

definition clear_all :: "'l stage_state \<Rightarrow> 'l stage_state" where
  "clear_all s = s\<lparr>layers := map_clear (layers s)\<rparr>"

definition clear_transforms :: "int \<Rightarrow> 'l stage_state \<Rightarrow> 'l stage_state" where
  "clear_transforms index s = s\<lparr>transforms := map_erase index (transforms s)\<rparr>"

definition clear_transforms_all :: "'l stage_state \<Rightarrow> 'l stage_state" where
  "clear_transforms_all s = s\<lparr>transforms := map_clear (transforms s)\<rparr>"

definition load ::
    "('l, 'p, 'r, 'i) layer_ops \<Rightarrow> int \<Rightarrow> 'p \<Rightarrow> bool \<Rightarrow> int \<Rightarrow> 'l stage_state \<Rightarrow> 'l stage_state" where
  "load ops index producer preview auto_play_delta s =
     (let (l, m) = map_index (layer_default ops) index (layers s)
      in s\<lparr>layers := map_put index (layer_load ops l producer preview auto_play_delta) m\<rparr>)"

definition pause :: "('l, 'p, 'r, 'i) layer_ops \<Rightarrow> int \<Rightarrow> 'l stage_state \<Rightarrow> 'l stage_state" where
  "pause ops index s =
     (let (l, m) = map_index (layer_default ops) index (layers s)
      in s\<lparr>layers := map_put index (layer_pause ops l) m\<rparr>)"

definition play :: "('l, 'p, 'r, 'i) layer_ops \<Rightarrow> int \<Rightarrow> 'l stage_state \<Rightarrow> 'l stage_state" where
  "play ops index s =
     (let (l, m) = map_index (layer_default ops) index (layers s)
      in s\<lparr>layers := map_put index (layer_play ops l) m\<rparr>)"

definition stop :: "('l, 'p, 'r, 'i) layer_ops \<Rightarrow> int \<Rightarrow> 'l stage_state \<Rightarrow> 'l stage_state" where
  "stop ops index s =
     (let (l, m) = map_index (layer_default ops) index (layers s)
      in s\<lparr>layers := map_put index (layer_stop ops l) m\<rparr>)"

text \<open>
  \<^verbatim>\<open>std::swap(layers_[index], layers_[other_index])\<close>: both lookups go through
  \<^verbatim>\<open>operator[]\<close>, then the two values change places.
\<close>

definition swap_layer ::
    "('l, 'p, 'r, 'i) layer_ops \<Rightarrow> int \<Rightarrow> int \<Rightarrow> 'l stage_state \<Rightarrow> 'l stage_state" where
  "swap_layer ops index other_index s =
     (let (a, m1) = map_index (layer_default ops) index (layers s);
          (b, m2) = map_index (layer_default ops) other_index m1
      in s\<lparr>layers := map_put other_index a (map_put index b m2)\<rparr>)"

definition foreground ::
    "('l, 'p, 'r, 'i) layer_ops \<Rightarrow> int \<Rightarrow> 'l stage_state \<Rightarrow> 'p \<times> 'l stage_state" where
  "foreground ops index s =
     (let (l, m) = map_index (layer_default ops) index (layers s)
      in (layer_foreground ops l, s\<lparr>layers := m\<rparr>))"

definition background ::
    "('l, 'p, 'r, 'i) layer_ops \<Rightarrow> int \<Rightarrow> 'l stage_state \<Rightarrow> 'p \<times> 'l stage_state" where
  "background ops index s =
     (let (l, m) = map_index (layer_default ops) index (layers s)
      in (layer_background ops l, s\<lparr>layers := m\<rparr>))"

text \<open>The report of \<^verbatim>\<open>info()\<close> is the list of the layers' reports, each with its index.\<close>

definition info_all ::
    "('l, 'p, 'r, 'i) layer_ops \<Rightarrow> 'l stage_state \<Rightarrow> ('i \<times> int) list \<times> 'l stage_state" where
  "info_all ops s = (map (\<lambda>(k, l). (layer_info ops l, k)) (layers s), s)"

definition info ::
    "('l, 'p, 'r, 'i) layer_ops \<Rightarrow> int \<Rightarrow> 'l stage_state \<Rightarrow> 'i \<times> 'l stage_state" where
  "info ops index s =
     (let (l, m) = map_index (layer_default ops) index (layers s)
      in (layer_info ops l, s\<lparr>layers := m\<rparr>))"

type_synonym tweener_t =
  "nat \<Rightarrow> nat \<Rightarrow> frame_transform \<Rightarrow> frame_transform \<Rightarrow> frame_transform"

type_synonym transform_tuple_t =
  "int \<times> (frame_transform \<Rightarrow> frame_transform) \<times> nat \<times> tweener_t"

definition apply_transform ::
    "int \<Rightarrow> (frame_transform \<Rightarrow> frame_transform) \<Rightarrow> nat \<Rightarrow> tweener_t
       \<Rightarrow> 'l stage_state \<Rightarrow> 'l stage_state" where
  "apply_transform index transform mix_duration tween s =
     (let (tt, m) = map_index default_tweened_transform index (transforms s);
          src = fetch tt;
          dst = transform src
      in s\<lparr>transforms := map_put index (make_tweened_transform src dst mix_duration tween) m\<rparr>)"

text \<open>The loop of \<^verbatim>\<open>apply_transforms\<close> has the body of \<^verbatim>\<open>apply_transform\<close> for each tuple.\<close>

definition apply_transforms :: "transform_tuple_t list \<Rightarrow> 'l stage_state \<Rightarrow> 'l stage_state" where
  "apply_transforms ts s =
     fold (\<lambda>(index, transform, mix_duration, tween).
             apply_transform index transform mix_duration tween) ts s"

subsection \<open>Production\<close>

text \<open>
  The literal \<^verbatim>\<open>0.0001\<close> of stage.cpp is a double: the double nearest to one ten-thousandth,
  which is 7378697629483821 / 2^66, a little above it.
\<close>

definition double_0_0001 :: real where
  "double_0_0001 = 7378697629483821 / 2 ^ 66"

text \<open>
  The flags of a layer, from the snapshot of its transform. The two comparisons are with the
  double literal. The difference \<^verbatim>\<open>fill_scale[1] - 1.0\<close> is the exact one: for a double between
  1/2 and 2 the subtraction of doubles does not round, and for any other double the
  difference is 1/2 or more in magnitude, rounded or not, which is above the literal either
  way.
\<close>

definition layer_flags :: "video_format_desc \<Rightarrow> frame_transform \<Rightarrow> flags" where
  "layer_flags format_desc transform =
     (let flags0 = {};
          flags1 =
            (if field_mode format_desc \<noteq> progressive
             then flags0
                  \<union> (if \<bar>snd (fill_scale transform) - 1.0\<bar> > double_0_0001
                      then {deinterlace} else {})
                  \<union> (if \<bar>snd (fill_translation transform)\<bar> > double_0_0001
                      then {deinterlace} else {})
             else flags0)
      in if is_key transform then flags1 \<union> {alpha_only} else flags1)"

text \<open>
  The body of the parallel loop for the layer at index \<open>k\<close> (an index that has no layer is
  passed over). What it has written to the maps stays written when \<open>layer_receive\<close> throws.
\<close>

definition produce_layer ::
    "('l, 'p, 'r, 'i) layer_ops \<Rightarrow> video_format_desc \<Rightarrow> int
       \<Rightarrow> 'l stage_state \<times> 'r draw_frame std_map
       \<Rightarrow> error option \<times> 'l stage_state \<times> 'r draw_frame std_map" where
  "produce_layer ops format_desc k st =
     (let (s, frames) = st
      in case map_of (layers s) k of
           None \<Rightarrow> (None, st)
         | Some l \<Rightarrow>
             (let (tt, tm) = map_index default_tweened_transform k (transforms s);
                  (transform, tt1) = fetch_and_tick 1 tt;
                  tm1 = map_put k tt1 tm;
                  flags = layer_flags format_desc transform
              in case layer_receive ops l flags of
                   Inl e \<Rightarrow> (Some e, s\<lparr>transforms := tm1\<rparr>, frames)
                 | Inr (frame, l') \<Rightarrow>
                     (let ls1 = map_put k l' (layers s);
                          frame1 = wrap frame transform
                      in if field_mode format_desc \<noteq> progressive
                         then (let (tt2, tm2) = map_index default_tweened_transform k tm1;
                                   (transform2, tt3) = fetch_and_tick 1 tt2;
                                   tm3 = map_put k tt3 tm2;
                                   frame2 = wrap frame transform2;
                                   frame12 = interlace frame1 frame2 (field_mode format_desc)
                               in (None, s\<lparr>layers := ls1, transforms := tm3\<rparr>,
                                   map_put k frame12 frames))
                         else (None, s\<lparr>layers := ls1, transforms := tm1\<rparr>,
                               map_put k frame1 frames))))"

text \<open>
  \<^verbatim>\<open>tbb::parallel_for_each\<close> runs the body once for each layer, in an order of its own
  choosing: the order is a parameter, a list of the layer indices. The first exception ends
  the loop and is handed on.
\<close>

fun parallel_for_each ::
    "(int \<Rightarrow> 'st \<Rightarrow> error option \<times> 'st) \<Rightarrow> int list \<Rightarrow> 'st \<Rightarrow> error option \<times> 'st" where
  "parallel_for_each body [] st = (None, st)"
| "parallel_for_each body (k # ks) st =
     (case body k st of
        (Some e, st') \<Rightarrow> (Some e, st')
      | (None, st') \<Rightarrow> parallel_for_each body ks st')"

definition empty_frames :: "'l std_map \<Rightarrow> 'r draw_frame std_map" where
  "empty_frames ls = fold (\<lambda>layer frames. map_put (fst layer) empty_frame frames) ls []"

text \<open>The \<^verbatim>\<open>catch(...)\<close> block of production.\<close>

definition produce_catch ::
    "error \<Rightarrow> 'l stage_state \<times> 'r draw_frame std_map \<Rightarrow> 'l stage_state \<times> 'r draw_frame std_map" where
  "produce_catch e st =
     (let (s, frames) = st
      in (s\<lparr>layers := map_clear (layers s), logged := logged s @ [e]\<rparr>, frames))"

definition produce ::
    "('l, 'p, 'r, 'i) layer_ops \<Rightarrow> int list \<Rightarrow> video_format_desc \<Rightarrow> 'l stage_state
       \<Rightarrow> 'r draw_frame std_map \<times> 'l stage_state" where
  "produce ops order format_desc s =
     (let frames = empty_frames (layers s);
          (thrown, st) = parallel_for_each (produce_layer ops format_desc) order (s, frames);
          (s', frames') = (case thrown of None \<Rightarrow> st | Some e \<Rightarrow> produce_catch e st)
      in (frames', s'))"

section \<open>The serialized task queue\<close>

text \<open>
  Modelled from the spec: the \<^verbatim>\<open>executor\<close> (common/concurrency/executor.h is not part of the
  sources at hand) is a single-threaded queue with two priority lanes. A lane is first in,
  first out; the high lane drains before the normal lane; a task that has started runs to
  its end. \<open>begin_invoke\<close> enqueues and returns; \<open>invoke\<close> enqueues and blocks until the task
  has run, which is after the tasks that are ahead of it.
\<close>

datatype task_priority = high_priority | normal_priority

record 't executor =
  high_lane :: "'t list"
  normal_lane :: "'t list"

text \<open>Modelled from the spec: \<^verbatim>\<open>begin_invoke\<close> puts the task at the end of its lane.\<close>

definition begin_invoke :: "'t \<Rightarrow> task_priority \<Rightarrow> 't executor \<Rightarrow> 't executor" where
  "begin_invoke t p ex =
     (case p of
        high_priority \<Rightarrow> ex\<lparr>high_lane := high_lane ex @ [t]\<rparr>
      | normal_priority \<Rightarrow> ex\<lparr>normal_lane := normal_lane ex @ [t]\<rparr>)"

text \<open>
  Modelled from the spec: the task the executor's thread takes next is the first of the high
  lane, and the first of the normal lane when the high lane is empty.
\<close>

definition next_task :: "'t executor \<Rightarrow> ('t \<times> 't executor) option" where
  "next_task ex =
     (case high_lane ex of
        t # ts \<Rightarrow> Some (t, ex\<lparr>high_lane := ts\<rparr>)
      | [] \<Rightarrow>
          (case normal_lane ex of
             t # ts \<Rightarrow> Some (t, ex\<lparr>normal_lane := ts\<rparr>)
           | [] \<Rightarrow> None))"

text \<open>
  Modelled from the spec: the number of queued tasks that run before a task submitted now.
\<close>

definition tasks_ahead :: "task_priority \<Rightarrow> 't executor \<Rightarrow> nat" where
  "tasks_ahead p ex =
     (case p of
        high_priority \<Rightarrow> length (high_lane ex)
      | normal_priority \<Rightarrow> length (high_lane ex) + length (normal_lane ex))"

text \<open>
  An \<^verbatim>\<open>impl\<close> is its data members and its executor (the member \<^verbatim>\<open>executor_\<close>).
\<close>

record ('s, 't) impl =
  members :: 's
  queue :: "'t executor"

text \<open>
  Modelled from the spec: one step of the executor's thread takes the next task and runs it
  to its end on the members, as \<open>run\<close> says; with nothing queued there is no step.
\<close>

definition execute_next ::
    "('t \<Rightarrow> 's \<Rightarrow> 'r \<times> 's) \<Rightarrow> ('s, 't) impl \<Rightarrow> ('r \<times> ('s, 't) impl) option" where
  "execute_next run a =
     (case next_task (queue a) of
        None \<Rightarrow> None
      | Some (t, ex) \<Rightarrow>
          (let (r, s') = run t (members a)
           in Some (r, \<lparr>members = s', queue = ex\<rparr>)))"

text \<open>Modelled from the spec: \<open>n\<close> steps of the executor's thread, idle once nothing is queued.\<close>

fun execute :: "('t \<Rightarrow> 's \<Rightarrow> 'r \<times> 's) \<Rightarrow> nat \<Rightarrow> ('s, 't) impl \<Rightarrow> ('s, 't) impl" where
  "execute run 0 a = a"
| "execute run (Suc n) a =
     (case execute_next run a of
        None \<Rightarrow> a
      | Some (r, a') \<Rightarrow> execute run n a')"

text \<open>
  Modelled from the spec: the executor's thread runs the \<open>n\<close> tasks that are ahead and then
  the awaited one, whose result is handed back.
\<close>

fun await ::
    "('t \<Rightarrow> 's \<Rightarrow> 'r \<times> 's) \<Rightarrow> nat \<Rightarrow> ('s, 't) impl \<Rightarrow> ('r \<times> ('s, 't) impl) option" where
  "await run 0 a = execute_next run a"
| "await run (Suc n) a =
     (case execute_next run a of
        None \<Rightarrow> None
      | Some (r, a') \<Rightarrow> await run n a')"

text \<open>
  Modelled from the spec: \<^verbatim>\<open>invoke\<close> enqueues the task and blocks the caller until it has run.
\<close>

definition invoke ::
    "('t \<Rightarrow> 's \<Rightarrow> 'r \<times> 's) \<Rightarrow> 't \<Rightarrow> task_priority \<Rightarrow> ('s, 't) impl
       \<Rightarrow> ('r \<times> ('s, 't) impl) option" where
  "invoke run t p a =
     await run (tasks_ahead p (queue a)) (a\<lparr>queue := begin_invoke t p (queue a)\<rparr>)"

subsection \<open>The Stage on its executor\<close>

text \<open>
  The tasks that \<^verbatim>\<open>stage::impl\<close> submits, one for each lambda, with what the lambda captures.
  The task of production carries the order in which its parallel loop will visit the layers.
\<close>

datatype 'p stage_task =
    produce_task "int list" video_format_desc
  | apply_transforms_task "transform_tuple_t list"
  | apply_transform_task int "frame_transform \<Rightarrow> frame_transform" nat tweener_t
  | clear_transforms_task int
  | clear_transforms_all_task
  | load_task int 'p bool int
  | pause_task int
  | play_task int
  | stop_task int
  | clear_task int
  | clear_all_task
  | swap_layer_task int int
  | foreground_task int
  | background_task int
  | info_all_task
  | info_task int

datatype ('p, 'r, 'i) stage_result =
    frames_result "'r draw_frame std_map"
  | done_result
  | producer_result 'p
  | info_all_result "('i \<times> int) list"
  | info_result 'i

fun stage_run ::
    "('l, 'p, 'r, 'i) layer_ops \<Rightarrow> 'p stage_task \<Rightarrow> 'l stage_state
       \<Rightarrow> ('p, 'r, 'i) stage_result \<times> 'l stage_state" where
  "stage_run ops (produce_task order format_desc) s =
     (let (frames, s') = produce ops order format_desc s in (frames_result frames, s'))"
| "stage_run ops (apply_transforms_task ts) s = (done_result, apply_transforms ts s)"
| "stage_run ops (apply_transform_task index f mix_duration tween) s =
     (done_result, apply_transform index f mix_duration tween s)"
| "stage_run ops (clear_transforms_task index) s = (done_result, clear_transforms index s)"
| "stage_run ops clear_transforms_all_task s = (done_result, clear_transforms_all s)"
| "stage_run ops (load_task index producer preview auto_play_delta) s =
     (done_result, load ops index producer preview auto_play_delta s)"
| "stage_run ops (pause_task index) s = (done_result, pause ops index s)"
| "stage_run ops (play_task index) s = (done_result, play ops index s)"
| "stage_run ops (stop_task index) s = (done_result, stop ops index s)"
| "stage_run ops (clear_task index) s = (done_result, clear index s)"
| "stage_run ops clear_all_task s = (done_result, clear_all s)"
| "stage_run ops (swap_layer_task index other_index) s =
     (done_result, swap_layer ops index other_index s)"
| "stage_run ops (foreground_task index) s =
     (let (p, s') = foreground ops index s in (producer_result p, s'))"
| "stage_run ops (background_task index) s =
     (let (p, s') = background ops index s in (producer_result p, s'))"
| "stage_run ops info_all_task s =
     (let (i, s') = info_all ops s in (info_all_result i, s'))"
| "stage_run ops (info_task index) s =
     (let (i, s') = info ops index s in (info_result i, s'))"

type_synonym ('l, 'p) stage = "('l stage_state, 'p stage_task) impl"

text \<open>
  \<^verbatim>\<open>stage::apply_transforms\<close> is one \<^verbatim>\<open>begin_invoke\<close> at high priority; the production
  \<^verbatim>\<open>stage::operator()\<close> is an \<^verbatim>\<open>invoke\<close> at the executor's default priority, the normal one.
\<close>

definition stage_apply_transforms ::
    "transform_tuple_t list \<Rightarrow> ('l, 'p) stage \<Rightarrow> ('l, 'p) stage" where
  "stage_apply_transforms ts a =
     a\<lparr>queue := begin_invoke (apply_transforms_task ts) high_priority (queue a)\<rparr>"

definition stage_produce ::
    "('l, 'p, 'r, 'i) layer_ops \<Rightarrow> int list \<Rightarrow> video_format_desc \<Rightarrow> ('l, 'p) stage
       \<Rightarrow> (('p, 'r, 'i) stage_result \<times> ('l, 'p) stage) option" where
  "stage_produce ops order format_desc a =
     invoke (stage_run ops) (produce_task order format_desc) normal_priority a"

section \<open>The Mixer\<close>

text \<open>
  The frames of mixer.cpp carry a transform whose image part has the layer depth. The content
  of a frame and the audio part of its transform are parameters.
\<close>

record image_transform =
  layer_depth :: int

record 'a mixer_frame_transform =
  image_transform :: image_transform
  audio_transform :: 'a

record ('c, 'a) mixer_draw_frame =
  content :: 'c
  transform :: "'a mixer_frame_transform"

text \<open>
  Modelled from the spec: the audio and image mixers (audio_mixer.h and image_mixer.h are not
  part of the sources at hand) accumulate the frames that accept them, in the state in which
  each frame is at that moment, and the audio mixer holds the master volume.
\<close>

record ('c, 'a, 'v) audio_mixer =
  master_volume :: 'v
  audio_items :: "('c, 'a) mixer_draw_frame list"

record ('c, 'a) image_mixer =
  image_items :: "('c, 'a) mixer_draw_frame list"

text \<open>
  Modelled from the spec: a frame that accepts the audio mixer is added to what the audio
  mixer has accumulated.
\<close>

definition accept_audio ::
    "('c, 'a) mixer_draw_frame \<Rightarrow> ('c, 'a, 'v) audio_mixer \<Rightarrow> ('c, 'a, 'v) audio_mixer" where
  "accept_audio frame am = am\<lparr>audio_items := audio_items am @ [frame]\<rparr>"

text \<open>
  Modelled from the spec: a frame that accepts the image mixer is added to what the image
  mixer has accumulated.
\<close>

definition accept_image ::
    "('c, 'a) mixer_draw_frame \<Rightarrow> ('c, 'a) image_mixer \<Rightarrow> ('c, 'a) image_mixer" where
  "accept_image frame im = im\<lparr>image_items := image_items im @ [frame]\<rparr>"

text \<open>
  The two finalizing calls are passed in: each renders what its mixer has accumulated, or
  throws.
\<close>

record ('c, 'a, 'v, 'img, 'aud) mixer_ops =
  image_render :: "('c, 'a) mixer_draw_frame list \<Rightarrow> video_format_desc \<Rightarrow> error + 'img"
  audio_render :: "('c, 'a) mixer_draw_frame list \<Rightarrow> 'v \<Rightarrow> video_format_desc \<Rightarrow> error + 'aud"

text \<open>
  Modelled from the spec: the pixel format descriptor and the composed frame (pixel_format.h and
  frame.h are not part of the sources at hand).
\<close>

datatype pixel_format = bgra

record plane =
  plane_width :: nat
  plane_height :: nat
  plane_channels :: nat

record pixel_format_desc =
  format :: pixel_format
  planes :: "plane list"

datatype ('img, 'aud) const_frame =
    const_frame_empty
  | const_frame 'img 'aud pixel_format_desc

text \<open>
  The current aspect ratio is the quotient of two doubles. It is kept as the two numbers it
  is the quotient of: the division of doubles, with its rounding and with what a zero divisor
  gives, is not evaluated.
\<close>

datatype double_quotient = double_quotient nat nat

record ('c, 'a, 'v) mixer_state =
  audio_mixer :: "('c, 'a, 'v) audio_mixer"
  image_mixer :: "('c, 'a) image_mixer"
  current_aspect_ratio :: double_quotient
  mixer_logged :: "error list"

text \<open>The body of the loop over the frames of \<^verbatim>\<open>mixer::impl::operator()\<close>.\<close>

definition mix_frame ::
    "int \<times> ('c, 'a) mixer_draw_frame \<Rightarrow> ('c, 'a, 'v) mixer_state \<Rightarrow> ('c, 'a, 'v) mixer_state" where
  "mix_frame frame m =
     (let f0 = snd frame;
          m1 = m\<lparr>audio_mixer := accept_audio f0 (audio_mixer m)\<rparr>;
          f1 = f0\<lparr>transform :=
                    (transform f0)\<lparr>image_transform :=
                       (image_transform (transform f0))\<lparr>layer_depth := 1\<rparr>\<rparr>\<rparr>
      in m1\<lparr>image_mixer := accept_image f1 (image_mixer m1)\<rparr>)"

definition mix_frames ::
    "('c, 'a) mixer_draw_frame std_map \<Rightarrow> ('c, 'a, 'v) mixer_state \<Rightarrow> ('c, 'a, 'v) mixer_state" where
  "mix_frames frames m = fold mix_frame frames m"

text \<open>
  \<^verbatim>\<open>mixer::impl::operator()\<close>: the aspect ratio, the loop, the two renderings (each takes what
  its mixer has accumulated and leaves it empty for the next tick), and the composed frame; an
  exception is logged and gives the empty frame.
\<close>

definition mix ::
    "('c, 'a, 'v, 'img, 'aud) mixer_ops \<Rightarrow> ('c, 'a) mixer_draw_frame std_map \<Rightarrow> video_format_desc
       \<Rightarrow> ('c, 'a, 'v) mixer_state \<Rightarrow> ('img, 'aud) const_frame \<times> ('c, 'a, 'v) mixer_state" where
  "mix ops frames format_desc m =
     (let m0 = m\<lparr>current_aspect_ratio :=
                   double_quotient (square_width format_desc) (square_height format_desc)\<rparr>;
          m1 = mix_frames frames m0
      in case image_render ops (image_items (image_mixer m1)) format_desc of
           Inl e \<Rightarrow> (const_frame_empty, m1\<lparr>mixer_logged := mixer_logged m1 @ [e]\<rparr>)
         | Inr img \<Rightarrow>
             (let m2 = m1\<lparr>image_mixer := (image_mixer m1)\<lparr>image_items := []\<rparr>\<rparr>
              in case audio_render ops (audio_items (audio_mixer m2))
                        (master_volume (audio_mixer m2)) format_desc of
                   Inl e \<Rightarrow> (const_frame_empty, m2\<lparr>mixer_logged := mixer_logged m2 @ [e]\<rparr>)
                 | Inr aud \<Rightarrow>
                     (let m3 = m2\<lparr>audio_mixer := (audio_mixer m2)\<lparr>audio_items := []\<rparr>\<rparr>;
                          desc = \<lparr>format = bgra,
                                  planes = [\<lparr>plane_width = width format_desc,
                                             plane_height = height format_desc,
                                             plane_channels = 4\<rparr>]\<rparr>
                      in (const_frame img aud desc, m3))))"

subsection \<open>The Mixer on its executor\<close>

text \<open>
  The tasks that \<^verbatim>\<open>mixer::impl\<close> submits. Mixing is an \<^verbatim>\<open>invoke\<close> at the executor's default
  priority, the normal one; the two volume operations are submitted at high priority.
\<close>

datatype ('c, 'a, 'v) mixer_task =
    mix_task "('c, 'a) mixer_draw_frame std_map" video_format_desc
  | set_master_volume_task 'v
  | get_master_volume_task

datatype ('v, 'img, 'aud) mixer_result =
    frame_result "('img, 'aud) const_frame"
  | volume_set_result
  | volume_result 'v

fun mixer_run ::
    "('c, 'a, 'v, 'img, 'aud) mixer_ops \<Rightarrow> ('c, 'a, 'v) mixer_task \<Rightarrow> ('c, 'a, 'v) mixer_state
       \<Rightarrow> ('v, 'img, 'aud) mixer_result \<times> ('c, 'a, 'v) mixer_state" where
  "mixer_run ops (mix_task frames format_desc) m =
     (let (frame, m') = mix ops frames format_desc m in (frame_result frame, m'))"
| "mixer_run ops (set_master_volume_task volume) m =
     (volume_set_result, m\<lparr>audio_mixer := (audio_mixer m)\<lparr>master_volume := volume\<rparr>\<rparr>)"
| "mixer_run ops get_master_volume_task m =
     (volume_result (master_volume (audio_mixer m)), m)"

type_synonym ('c, 'a, 'v) mixer = "(('c, 'a, 'v) mixer_state, ('c, 'a, 'v) mixer_task) impl"

definition mixer_mix ::
    "('c, 'a, 'v, 'img, 'aud) mixer_ops \<Rightarrow> ('c, 'a) mixer_draw_frame std_map \<Rightarrow> video_format_desc
       \<Rightarrow> ('c, 'a, 'v) mixer
       \<Rightarrow> (('v, 'img, 'aud) mixer_result \<times> ('c, 'a, 'v) mixer) option" where
  "mixer_mix ops frames format_desc a =
     invoke (mixer_run ops) (mix_task frames format_desc) normal_priority a"

definition set_master_volume :: "'v \<Rightarrow> ('c, 'a, 'v) mixer \<Rightarrow> ('c, 'a, 'v) mixer" where
  "set_master_volume volume a =
     a\<lparr>queue := begin_invoke (set_master_volume_task volume) high_priority (queue a)\<rparr>"

definition get_master_volume ::
    "('c, 'a, 'v, 'img, 'aud) mixer_ops \<Rightarrow> ('c, 'a, 'v) mixer
       \<Rightarrow> (('v, 'img, 'aud) mixer_result \<times> ('c, 'a, 'v) mixer) option" where
  "get_master_volume ops a = invoke (mixer_run ops) get_master_volume_task high_priority a"

section \<open>A layer for the examples\<close>

text \<open>
  A layer that is just a name: loading installs the producer's name, receiving hands the name
  out as the raw frame, and the layer named \<open>''fault''\<close> throws when it is asked for a frame.
\<close>

definition named_layer_ops :: "(string, string, string, string) layer_ops" where
  "named_layer_ops =
     \<lparr>layer_default = [],
      layer_load = (\<lambda>l producer preview auto_play_delta. producer),
      layer_pause = (\<lambda>l. l),
      layer_play = (\<lambda>l. l),
      layer_stop = (\<lambda>l. l),
      layer_receive = (\<lambda>l fl. if l = ''fault'' then Inl (exception ''fault'') else Inr (l, l)),
      layer_foreground = (\<lambda>l. l),
      layer_background = (\<lambda>l. []),
      layer_info = (\<lambda>l. l)\<rparr>"

section \<open>Properties of the ordered maps\<close>

lemma map_of_map_put: "map_of (map_put k v m) = (map_of m)(k \<mapsto> v)"
  by (induction m) (auto simp: fun_eq_iff)

lemma map_of_map_erase: "map_of (map_erase k m) = (map_of m)(k := None)"
  by (induction m) (auto simp: map_erase_def fun_eq_iff)

lemma set_map_keys: "set (map_keys m) = dom (map_of m)"
  by (simp add: map_keys_def dom_map_of_conv_image_fst)

lemma map_keys_map_put: "set (map_keys (map_put k v m)) = insert k (set (map_keys m))"
  by (simp add: set_map_keys map_of_map_put)

lemma map_keys_map_erase: "set (map_keys (map_erase k m)) = set (map_keys m) - {k}"
  by (auto simp: map_keys_def map_erase_def)

lemma map_of_eq_None_keys: "map_of m k = None \<longleftrightarrow> k \<notin> set (map_keys m)"
  by (simp add: map_keys_def map_of_eq_None_iff)

section \<open>Clearing layers\<close>

text \<open>
  C1, as stated, fails: \<^verbatim>\<open>clear(index)\<close> erases the layer only. With a layer and a transform at
  index 0, the transform map still has its entry for 0 after \<open>clear 0\<close>.
\<close>

theorem clear_keeps_transform_counterexample:
  "map_of (transforms (clear 0
      \<lparr>layers = [(0, ''a'')], transforms = [(0, default_tweened_transform)], logged = []\<rparr>)) 0
   \<noteq> None"
  by (simp add: clear_def)

text \<open>
  C1, amended: after \<open>clear i\<close> the layer map has no entry for \<open>i\<close> and keeps every other entry,
  after \<open>clear_all\<close> the layer map is empty, and both leave the transform map (and the log) as
  they were; the transforms are removed by \<open>clear_transforms\<close> and \<open>clear_transforms_all\<close>,
  which in turn leave the layers as they were.
\<close>

theorem clear_removes_layer_only:
  "map_of (layers (clear i s)) i = None
   \<and> i \<notin> set (map_keys (layers (clear i s)))
   \<and> (\<forall>k. k \<noteq> i \<longrightarrow> map_of (layers (clear i s)) k = map_of (layers s) k)
   \<and> transforms (clear i s) = transforms s
   \<and> logged (clear i s) = logged s
   \<and> layers (clear_all s) = []
   \<and> transforms (clear_all s) = transforms s
   \<and> logged (clear_all s) = logged s
   \<and> map_of (transforms (clear_transforms i s)) i = None
   \<and> layers (clear_transforms i s) = layers s
   \<and> transforms (clear_transforms_all s) = []
   \<and> layers (clear_transforms_all s) = layers s"
  by (simp add: clear_def clear_all_def clear_transforms_def clear_transforms_all_def
      map_clear_def map_of_map_erase map_keys_map_erase)

theorem clear_removes_layer_only_witness:
  "map_of (layers (clear 0
      \<lparr>layers = [(0, ''a''), (1, ''b'')], transforms = [(0, default_tweened_transform)],
       logged = []\<rparr>)) 0 = None
   \<and> map_of (layers (clear 0
      \<lparr>layers = [(0, ''a''), (1, ''b'')], transforms = [(0, default_tweened_transform)],
       logged = []\<rparr>)) 1 = Some ''b''
   \<and> transforms (clear 0
      \<lparr>layers = [(0, ''a''), (1, ''b'')], transforms = [(0, default_tweened_transform)],
       logged = []\<rparr>) = [(0, default_tweened_transform)]"
  using clear_removes_layer_only [of 0
      "\<lparr>layers = [(0, ''a''), (1, ''b'')], transforms = [(0, default_tweened_transform)],
        logged = []\<rparr>"]
  by simp


section \<open>Properties of production\<close>

lemma fst_map_index:
  "fst (map_index d k m) = (case map_of m k of None \<Rightarrow> d | Some v \<Rightarrow> v)"
  by (simp add: map_index_def split: option.splits)

lemma map_of_snd_map_index:
  "map_of (snd (map_index d k m)) k = Some (fst (map_index d k m))"
  by (simp add: map_index_def map_of_map_put split: option.splits)

lemma map_of_empty_frames_acc:
  "map_of (fold (\<lambda>layer frames. map_put (fst layer) empty_frame frames) ls acc) k =
     (if k \<in> set (map_keys ls) then Some empty_frame else map_of acc k)"
  by (induction ls arbitrary: acc) (auto simp: map_of_map_put map_keys_def)

lemma map_of_empty_frames:
  "map_of (empty_frames ls) k = (if k \<in> set (map_keys ls) then Some empty_frame else None)"
  by (simp add: empty_frames_def map_of_empty_frames_acc)

lemma produce_layer_missing:
  "map_of (layers s) k = None \<Longrightarrow> produce_layer ops fmt k (s, frames) = (None, s, frames)"
  by (simp add: produce_layer_def)

text \<open>What the body of the loop does to the three maps, read as functions.\<close>

lemma produce_layer_maps:
  assumes "map_of (layers s) k = Some l"
      and "produce_layer ops fmt k (s, frames) = (r, s', frames')"
  shows "let tt0 = (case map_of (transforms s) k of
                      None \<Rightarrow> default_tweened_transform | Some tt \<Rightarrow> tt);
             t1 = fst (fetch_and_tick 1 tt0); tt1 = snd (fetch_and_tick 1 tt0);
             t2 = fst (fetch_and_tick 1 tt1); tt2 = snd (fetch_and_tick 1 tt1)
         in (case layer_receive ops l (layer_flags fmt t1) of
               Inl e \<Rightarrow>
                 r = Some e \<and> map_of (layers s') = map_of (layers s)
                 \<and> map_of (transforms s') = (map_of (transforms s))(k \<mapsto> tt1)
                 \<and> frames' = frames \<and> logged s' = logged s
             | Inr (frame, l') \<Rightarrow>
                 r = None \<and> map_of (layers s') = (map_of (layers s))(k \<mapsto> l')
                 \<and> logged s' = logged s
                 \<and> (if field_mode fmt \<noteq> progressive
                     then map_of (transforms s') = (map_of (transforms s))(k \<mapsto> tt2)
                          \<and> map_of frames' =
                              (map_of frames)(k \<mapsto> interlace (wrap frame t1) (wrap frame t2)
                                                      (field_mode fmt))
                     else map_of (transforms s') = (map_of (transforms s))(k \<mapsto> tt1)
                          \<and> map_of frames' = (map_of frames)(k \<mapsto> wrap frame t1)))"
  using assms
  by (auto simp: produce_layer_def Let_def map_index_def map_of_map_put
      split: prod.splits sum.splits option.splits if_splits)

text \<open>The body for the layer at \<open>j\<close> leaves the entries of every other index alone.\<close>

lemma produce_layer_local:
  assumes "produce_layer ops fmt j (s, frames) = (r, s', frames')" and "j \<noteq> k"
  shows "map_of (layers s') k = map_of (layers s) k
         \<and> map_of (transforms s') k = map_of (transforms s) k
         \<and> map_of frames' k = map_of frames k"
proof (cases "map_of (layers s) j")
  case None
  with assms show ?thesis by (simp add: produce_layer_missing)
next
  case (Some l)
  from produce_layer_maps [OF Some assms(1)] assms(2) show ?thesis
    by (auto simp: Let_def split: sum.splits prod.splits if_splits)
qed

lemma produce_layer_logged:
  assumes "produce_layer ops fmt j (s, frames) = (r, s', frames')"
  shows "logged s' = logged s"
proof (cases "map_of (layers s) j")
  case None
  with assms show ?thesis by (simp add: produce_layer_missing)
next
  case (Some l)
  from produce_layer_maps [OF Some assms] show ?thesis
    by (auto simp: Let_def split: sum.splits prod.splits if_splits)
qed

lemma produce_layer_doms:
  assumes "produce_layer ops fmt j (s, frames) = (r, s', frames')"
      and "dom (map_of frames) = dom (map_of (layers s))"
  shows "dom (map_of (layers s')) = dom (map_of (layers s))
         \<and> dom (map_of frames') = dom (map_of (layers s))"
proof (cases "map_of (layers s) j")
  case None
  with assms show ?thesis by (simp add: produce_layer_missing)
next
  case (Some l)
  then have j: "j \<in> dom (map_of (layers s))" by blast
  from produce_layer_maps [OF Some assms(1)] assms(2) j show ?thesis
    by (auto simp: Let_def insert_absorb split: sum.splits prod.splits if_splits)
qed

subsection \<open>The loop\<close>

lemma parallel_for_each_append:
  "parallel_for_each body (xs @ ys) st =
     (case parallel_for_each body xs st of
        (Some e, st') \<Rightarrow> (Some e, st')
      | (None, st') \<Rightarrow> parallel_for_each body ys st')"
  by (induction xs arbitrary: st) (auto split: prod.splits option.splits)

lemma parallel_for_each_thrown:
  "parallel_for_each body ks st = (Some e, st') \<Longrightarrow>
   \<exists>pre k post st1. ks = pre @ k # post
      \<and> parallel_for_each body pre st = (None, st1) \<and> body k st1 = (Some e, st')"
proof (induction ks arbitrary: st)
  case Nil
  then show ?case by simp
next
  case (Cons k ks)
  show ?case
  proof (cases "body k st")
    case (Pair r st1)
    show ?thesis
    proof (cases r)
      case None
      with Pair Cons.prems have "parallel_for_each body ks st1 = (Some e, st')" by simp
      from Cons.IH [OF this] obtain pre k' post st2 where
        "ks = pre @ k' # post" "parallel_for_each body pre st1 = (None, st2)"
        "body k' st2 = (Some e, st')" by blast
      with Pair None have "k # ks = (k # pre) @ k' # post
          \<and> parallel_for_each body (k # pre) st = (None, st2) \<and> body k' st2 = (Some e, st')"
        by simp
      then show ?thesis by blast
    next
      case (Some e')
      with Pair Cons.prems have "k # ks = [] @ k # ks
          \<and> parallel_for_each body [] st = (None, st) \<and> body k st = (Some e, st')"
        by simp
      then show ?thesis by blast
    qed
  qed
qed

lemma produce_loop_local:
  "parallel_for_each (produce_layer ops fmt) ks (s, frames) = (r, s', frames') \<Longrightarrow>
   k \<notin> set ks \<Longrightarrow>
   map_of (layers s') k = map_of (layers s) k
   \<and> map_of (transforms s') k = map_of (transforms s) k
   \<and> map_of frames' k = map_of frames k"
proof (induction ks arbitrary: s frames)
  case Nil
  then show ?case by simp
next
  case (Cons j ks)
  obtain r1 s1 frames1 where b: "produce_layer ops fmt j (s, frames) = (r1, s1, frames1)"
    by (cases "produce_layer ops fmt j (s, frames)") auto
  from Cons.prems(2) have jk: "j \<noteq> k" and k: "k \<notin> set ks" by auto
  note l = produce_layer_local [OF b jk]
  show ?case
  proof (cases r1)
    case None
    with b Cons.prems(1)
    have "parallel_for_each (produce_layer ops fmt) ks (s1, frames1) = (r, s', frames')"
      by simp
    from Cons.IH [OF this k] l show ?thesis by simp
  next
    case (Some e)
    with b Cons.prems(1) have "s' = s1" "frames' = frames1" by simp_all
    with l show ?thesis by simp
  qed
qed

lemma produce_loop_logged:
  "parallel_for_each (produce_layer ops fmt) ks (s, frames) = (r, s', frames') \<Longrightarrow>
   logged s' = logged s"
proof (induction ks arbitrary: s frames)
  case Nil
  then show ?case by simp
next
  case (Cons j ks)
  obtain r1 s1 frames1 where b: "produce_layer ops fmt j (s, frames) = (r1, s1, frames1)"
    by (cases "produce_layer ops fmt j (s, frames)") auto
  note l = produce_layer_logged [OF b]
  show ?case
  proof (cases r1)
    case None
    with b Cons.prems
    have "parallel_for_each (produce_layer ops fmt) ks (s1, frames1) = (r, s', frames')"
      by simp
    from Cons.IH [OF this] l show ?thesis by simp
  next
    case (Some e)
    with b Cons.prems have "s' = s1" by simp
    with l show ?thesis by simp
  qed
qed

lemma produce_loop_doms:
  "parallel_for_each (produce_layer ops fmt) ks (s, frames) = (r, s', frames') \<Longrightarrow>
   dom (map_of frames) = dom (map_of (layers s)) \<Longrightarrow>
   dom (map_of (layers s')) = dom (map_of (layers s))
   \<and> dom (map_of frames') = dom (map_of (layers s))"
proof (induction ks arbitrary: s frames)
  case Nil
  then show ?case by simp
next
  case (Cons j ks)
  obtain r1 s1 frames1 where b: "produce_layer ops fmt j (s, frames) = (r1, s1, frames1)"
    by (cases "produce_layer ops fmt j (s, frames)") auto
  note d = produce_layer_doms [OF b Cons.prems(2)]
  show ?case
  proof (cases r1)
    case None
    with b Cons.prems(1)
    have "parallel_for_each (produce_layer ops fmt) ks (s1, frames1) = (r, s', frames')"
      by simp
    from Cons.IH [OF this] d show ?thesis by simp
  next
    case (Some e)
    with b Cons.prems(1) have "s' = s1" "frames' = frames1" by simp_all
    with d show ?thesis by simp
  qed
qed

lemma dom_empty_frames: "dom (map_of (empty_frames ls)) = dom (map_of ls)"
  by (auto simp: map_of_empty_frames set_map_keys dom_def split: if_splits)

lemma produce_loop_split:
  assumes "parallel_for_each body (pre @ k # post) st = (None, st3)"
  shows "\<exists>st1 st2. parallel_for_each body pre st = (None, st1)
           \<and> body k st1 = (None, st2) \<and> parallel_for_each body post st2 = (None, st3)"
  using assms
  by (auto simp: parallel_for_each_append split: prod.splits option.splits)

lemma min_Suc_min: "min (Suc (min (Suc t) d)) d = min (Suc (Suc t)) d"
  by (simp add: min_def)

lemma tick_fields:
  "source (snd (fetch_and_tick n tt)) = source tt"
  "dest (snd (fetch_and_tick n tt)) = dest tt"
  "duration (snd (fetch_and_tick n tt)) = duration tt"
  "tweener (snd (fetch_and_tick n tt)) = tweener tt"
  by (simp_all add: fetch_and_tick_def Let_def)

lemma tick_time: "time (snd (fetch_and_tick (Suc 0) tt)) = min (Suc (time tt)) (duration tt)"
  by (simp add: fetch_and_tick_def Let_def)

lemma produce_layer_thrown:
  assumes "produce_layer ops fmt k (s, frames) = (Some e, s', frames')"
  shows "map_of (layers s) k \<noteq> None \<and> frames' = frames
         \<and> map_of (layers s') = map_of (layers s)"
proof (cases "map_of (layers s) k")
  case None
  with assms show ?thesis by (simp add: produce_layer_missing)
next
  case (Some l)
  from produce_layer_maps [OF Some assms] Some show ?thesis
    by (auto simp: Let_def split: sum.splits prod.splits if_splits)
qed

lemma produce_catch_result:
  "produce_catch e (s, frames) =
     (s\<lparr>layers := [], logged := logged s @ [e]\<rparr>, frames)"
  by (simp add: produce_catch_def map_clear_def)

lemma produce_thrown:
  "parallel_for_each (produce_layer ops fmt) order (s, empty_frames (layers s)) = (Some e, s1, frames1)
   \<Longrightarrow> produce ops order fmt s = (frames1, s1\<lparr>layers := [], logged := logged s1 @ [e]\<rparr>)"
  by (simp add: produce_def Let_def produce_catch_result)

lemma produce_layer_ticks:
  assumes "produce_layer ops fmt k (s, frames) = (r, s', frames')"
      and "map_of (transforms s) k = Some tt"
  shows "map_of (transforms s') k = Some tt
         \<or> map_of (transforms s') k = Some (snd (fetch_and_tick 1 tt))
         \<or> map_of (transforms s') k = Some (snd (fetch_and_tick 1 (snd (fetch_and_tick 1 tt))))"
proof (cases "map_of (layers s) k")
  case None
  with assms show ?thesis by (simp add: produce_layer_missing)
next
  case (Some l)
  from produce_layer_maps [OF Some assms(1)] assms(2) show ?thesis
    by (auto simp: Let_def split: sum.splits prod.splits if_splits)
qed

lemma produce_loop_ticks:
  "parallel_for_each (produce_layer ops fmt) ks (s, frames) = (r, s', frames') \<Longrightarrow>
   distinct ks \<Longrightarrow> map_of (transforms s) k = Some tt \<Longrightarrow>
   map_of (transforms s') k = Some tt
   \<or> map_of (transforms s') k = Some (snd (fetch_and_tick 1 tt))
   \<or> map_of (transforms s') k = Some (snd (fetch_and_tick 1 (snd (fetch_and_tick 1 tt))))"
proof (induction ks arbitrary: s frames)
  case Nil
  then show ?case by simp
next
  case (Cons j ks)
  obtain r1 s1 frames1 where b: "produce_layer ops fmt j (s, frames) = (r1, s1, frames1)"
    by (cases "produce_layer ops fmt j (s, frames)") auto
  from Cons.prems(2) have d: "distinct ks" and j: "j \<notin> set ks" by auto
  show ?case
  proof (cases r1)
    case (Some e)
    with b Cons.prems(1) have eq: "s' = s1" by simp
    show ?thesis
    proof (cases "j = k")
      case True
      from produce_layer_ticks [OF b [unfolded True] Cons.prems(3)] eq show ?thesis by simp
    next
      case False
      from produce_layer_local [OF b False] Cons.prems(3) eq show ?thesis by simp
    qed
  next
    case None
    with b Cons.prems(1)
    have rest: "parallel_for_each (produce_layer ops fmt) ks (s1, frames1) = (r, s', frames')"
      by simp
    show ?thesis
    proof (cases "j = k")
      case True
      with j have "k \<notin> set ks" by simp
      from produce_loop_local [OF rest this]
      have "map_of (transforms s') k = map_of (transforms s1) k" by simp
      with produce_layer_ticks [OF b [unfolded True] Cons.prems(3)] show ?thesis by simp
    next
      case False
      from produce_layer_local [OF b False] Cons.prems(3)
      have "map_of (transforms s1) k = Some tt" by simp
      from Cons.IH [OF rest d this] show ?thesis .
    qed
  qed
qed

text \<open>
  A layer that the loop has got past without an exception has its frame in the frame map: the
  raw frame it gave under the flags of its first snapshot, wrapped, and interlaced where the
  field mode asks for it.
\<close>

lemma produce_loop_done:
  fixes ops :: "('l, 'p, 'r, 'i) layer_ops"
  assumes run: "parallel_for_each (produce_layer ops fmt) ks (s, frames) = (None, s', frames')"
      and d: "distinct ks" and k: "k \<in> set ks" and l: "map_of (layers s) k = Some l"
  shows "let tt0 = (case map_of (transforms s) k of
                      None \<Rightarrow> default_tweened_transform | Some tt \<Rightarrow> tt);
             t1 = fst (fetch_and_tick 1 tt0);
             t2 = fst (fetch_and_tick 1 (snd (fetch_and_tick 1 tt0)))
         in \<exists>frame l'. layer_receive ops l (layer_flags fmt t1) = Inr (frame, l')
              \<and> map_of frames' k =
                  Some (if field_mode fmt \<noteq> progressive
                        then interlace (wrap frame t1) (wrap frame t2) (field_mode fmt)
                        else wrap frame t1)"
proof -
  let ?body = "produce_layer ops fmt"
  from k obtain pre post where ord: "ks = pre @ k # post"
    by (auto dest: split_list)
  with d have kpre: "k \<notin> set pre" and kpost: "k \<notin> set post" by auto
  from run ord obtain st1 st2 where
    r1: "parallel_for_each ?body pre (s, frames) = (None, st1)" and
    r2: "?body k st1 = (None, st2)" and
    r3: "parallel_for_each ?body post st2 = (None, s', frames')"
    using produce_loop_split [of ?body pre k post "(s, frames)" "(s', frames')"] by auto
  obtain s1 frames1 where st1: "st1 = (s1, frames1)" by (cases st1)
  obtain s2 frames2 where st2: "st2 = (s2, frames2)" by (cases st2)
  from produce_loop_local [OF r1 [unfolded st1] kpre] l
  have e1: "map_of (layers s1) k = Some l" "map_of (transforms s1) k = map_of (transforms s) k"
    by simp_all
  from produce_loop_local [OF r3 [unfolded st2] kpost]
  have e3: "map_of frames' k = map_of frames2 k" by simp
  from produce_layer_maps [OF e1(1) r2 [unfolded st1 st2]] e1(2) e3
  show ?thesis
    by (auto simp: Let_def split: sum.splits prod.splits if_splits)
qed

section \<open>Properties of the other task bodies\<close>

lemma swap_layer_map_of:
  "map_of (layers (swap_layer ops i j s)) =
     (map_of (layers s))
       (i \<mapsto> (case map_of (layers s) j of None \<Rightarrow> layer_default ops | Some l \<Rightarrow> l),
        j \<mapsto> (case map_of (layers s) i of None \<Rightarrow> layer_default ops | Some l \<Rightarrow> l))"
  by (auto simp: swap_layer_def map_index_def map_of_map_put fun_eq_iff Let_def
        split: option.splits prod.splits)

lemma swap_layer_transforms: "transforms (swap_layer ops i j s) = transforms s"
  by (simp add: swap_layer_def Let_def split: prod.splits)

lemma mix_frame_audio:
  "audio_items (audio_mixer (mix_frame p m)) = audio_items (audio_mixer m) @ [snd p]"
  by (simp add: mix_frame_def accept_audio_def accept_image_def Let_def)

lemma mix_frame_image:
  "image_items (image_mixer (mix_frame p m)) =
     image_items (image_mixer m) @
       [(snd p)\<lparr>transform := (transform (snd p))\<lparr>image_transform :=
           (image_transform (transform (snd p)))\<lparr>layer_depth := 1\<rparr>\<rparr>\<rparr>]"
  by (simp add: mix_frame_def accept_audio_def accept_image_def Let_def)

lemma mix_frame_master_volume:
  "master_volume (audio_mixer (mix_frame p m)) = master_volume (audio_mixer m)"
  by (simp add: mix_frame_def accept_audio_def accept_image_def Let_def)

lemma mix_frames_audio:
  "audio_items (audio_mixer (mix_frames frames m)) = audio_items (audio_mixer m) @ map snd frames"
  unfolding mix_frames_def
  by (induction frames arbitrary: m) (simp_all add: mix_frame_audio)

lemma mix_frames_image:
  "image_items (image_mixer (mix_frames frames m)) =
     image_items (image_mixer m) @
       map (\<lambda>p. (snd p)\<lparr>transform := (transform (snd p))\<lparr>image_transform :=
           (image_transform (transform (snd p)))\<lparr>layer_depth := 1\<rparr>\<rparr>\<rparr>) frames"
  unfolding mix_frames_def
  by (induction frames arbitrary: m) (simp_all add: mix_frame_image)

lemma mix_frames_master_volume:
  "master_volume (audio_mixer (mix_frames frames m)) = master_volume (audio_mixer m)"
  unfolding mix_frames_def
  by (induction frames arbitrary: m) (simp_all add: mix_frame_master_volume)

lemma mix_master_volume:
  "master_volume (audio_mixer (snd (mix ops frames format_desc m))) =
     master_volume (audio_mixer m)"
  by (simp add: mix_def Let_def mix_frames_master_volume split: sum.splits)

section \<open>Properties of the task queue\<close>

lemma execute_next_high:
  "execute_next run \<lparr>members = m, queue = \<lparr>high_lane = t # h, normal_lane = n\<rparr>\<rparr> =
     Some (fst (run t m), \<lparr>members = snd (run t m), queue = \<lparr>high_lane = h, normal_lane = n\<rparr>\<rparr>)"
  by (simp add: execute_next_def next_task_def split: prod.splits)

lemma execute_next_normal:
  "execute_next run \<lparr>members = m, queue = \<lparr>high_lane = [], normal_lane = t # n\<rparr>\<rparr> =
     Some (fst (run t m), \<lparr>members = snd (run t m), queue = \<lparr>high_lane = [], normal_lane = n\<rparr>\<rparr>)"
  by (simp add: execute_next_def next_task_def split: prod.splits)

lemma execute_next_idle:
  "execute_next run \<lparr>members = m, queue = \<lparr>high_lane = [], normal_lane = []\<rparr>\<rparr> = None"
  by (simp add: execute_next_def next_task_def)

lemma impl_cases:
  obtains m h n where "a = \<lparr>members = m, queue = \<lparr>high_lane = h, normal_lane = n\<rparr>\<rparr>"
proof -
  have "a = \<lparr>members = members a,
            queue = \<lparr>high_lane = high_lane (queue a), normal_lane = normal_lane (queue a)\<rparr>\<rparr>"
    by simp
  then show ?thesis using that by blast
qed

lemma await_high:
  "await run (length h) \<lparr>members = m, queue = \<lparr>high_lane = h @ [t], normal_lane = n\<rparr>\<rparr> =
     Some (fst (run t (fold (\<lambda>t m. snd (run t m)) h m)),
           \<lparr>members = snd (run t (fold (\<lambda>t m. snd (run t m)) h m)),
            queue = \<lparr>high_lane = [], normal_lane = n\<rparr>\<rparr>)"
  by (induction h arbitrary: m) (simp_all add: execute_next_high)

lemma await_normal_only:
  "await run (length n) \<lparr>members = m, queue = \<lparr>high_lane = [], normal_lane = n @ [t]\<rparr>\<rparr> =
     Some (fst (run t (fold (\<lambda>t m. snd (run t m)) n m)),
           \<lparr>members = snd (run t (fold (\<lambda>t m. snd (run t m)) n m)),
            queue = \<lparr>high_lane = [], normal_lane = []\<rparr>\<rparr>)"
  by (induction n arbitrary: m) (simp_all add: execute_next_normal)

lemma await_normal:
  "await run (length h + length n)
       \<lparr>members = m, queue = \<lparr>high_lane = h, normal_lane = n @ [t]\<rparr>\<rparr> =
     Some (fst (run t (fold (\<lambda>t m. snd (run t m)) (h @ n) m)),
           \<lparr>members = snd (run t (fold (\<lambda>t m. snd (run t m)) (h @ n) m)),
            queue = \<lparr>high_lane = [], normal_lane = []\<rparr>\<rparr>)"
proof (induction h arbitrary: m)
  case Nil
  show ?case using await_normal_only [of run n m t] by simp
next
  case (Cons x h)
  then show ?case by (simp add: execute_next_high)
qed

lemma invoke_high:
  "invoke run t high_priority a =
     Some (fst (run t (fold (\<lambda>t m. snd (run t m)) (high_lane (queue a)) (members a))),
           \<lparr>members = snd (run t (fold (\<lambda>t m. snd (run t m)) (high_lane (queue a)) (members a))),
            queue = \<lparr>high_lane = [], normal_lane = normal_lane (queue a)\<rparr>\<rparr>)"
proof -
  obtain m h n where a: "a = \<lparr>members = m, queue = \<lparr>high_lane = h, normal_lane = n\<rparr>\<rparr>"
    by (rule impl_cases)
  show ?thesis
    by (simp add: a invoke_def tasks_ahead_def begin_invoke_def await_high)
qed

lemma invoke_normal:
  "invoke run t normal_priority a =
     Some (fst (run t (fold (\<lambda>t m. snd (run t m))
                         (high_lane (queue a) @ normal_lane (queue a)) (members a))),
           \<lparr>members = snd (run t (fold (\<lambda>t m. snd (run t m))
                         (high_lane (queue a) @ normal_lane (queue a)) (members a))),
            queue = \<lparr>high_lane = [], normal_lane = []\<rparr>\<rparr>)"
proof -
  obtain m h n where a: "a = \<lparr>members = m, queue = \<lparr>high_lane = h, normal_lane = n\<rparr>\<rparr>"
    by (rule impl_cases)
  show ?thesis
    using await_normal [of run h n m t]
    by (simp add: a invoke_def tasks_ahead_def begin_invoke_def)
qed

text \<open>The first tasks of the high lane run the same, whatever is queued behind them.\<close>

lemma execute_high_prefix:
  "n \<le> length h \<Longrightarrow>
   execute run n \<lparr>members = m, queue = \<lparr>high_lane = h @ h', normal_lane = nl\<rparr>\<rparr> =
     \<lparr>members = fold (\<lambda>t m. snd (run t m)) (take n h) m,
      queue = \<lparr>high_lane = drop n h @ h', normal_lane = nl\<rparr>\<rparr>"
proof (induction n arbitrary: h m)
  case 0
  then show ?case by simp
next
  case (Suc n)
  then obtain t ts where h: "h = t # ts" by (cases h) auto
  with Suc.prems have "n \<le> length ts" by simp
  from Suc.IH [OF this] show ?case by (simp add: h execute_next_high)
qed


section \<open>The master volume on the queue\<close>

lemma mixer_run_mix_volume:
  "master_volume (audio_mixer (snd (mixer_run ops (mix_task frames fmt) m))) =
     master_volume (audio_mixer m)"
proof -
  obtain fr m' where x: "mix ops frames fmt m = (fr, m')"
    by (cases "mix ops frames fmt m")
  from mix_master_volume [of ops frames fmt m] x show ?thesis by simp
qed

lemma execute_volume_settled:
  "master_volume (audio_mixer m) = v \<Longrightarrow>
   \<forall>t \<in> set n. case t of mix_task frames fmt \<Rightarrow> True | _ \<Rightarrow> False \<Longrightarrow>
   high_lane (queue (execute (mixer_run ops) k
        \<lparr>members = m, queue = \<lparr>high_lane = [], normal_lane = n\<rparr>\<rparr>)) = []
   \<and> master_volume (audio_mixer (members (execute (mixer_run ops) k
        \<lparr>members = m, queue = \<lparr>high_lane = [], normal_lane = n\<rparr>\<rparr>))) = v"
proof (induction k arbitrary: m n)
  case 0
  then show ?case by simp
next
  case (Suc k)
  show ?case
  proof (cases n)
    case Nil
    with Suc.prems show ?thesis by (simp add: execute_next_idle)
  next
    case (Cons t ts)
    with Suc.prems(2) obtain frames fmt where t: "t = mix_task frames fmt"
      by (cases t) auto
    from Cons Suc.prems(2)
    have ts: "\<forall>t \<in> set ts. case t of mix_task frames fmt \<Rightarrow> True | _ \<Rightarrow> False" by simp
    have v: "master_volume (audio_mixer (snd (mixer_run ops t m))) = v"
      unfolding t using Suc.prems(1) by (simp only: mixer_run_mix_volume)
    from Suc.IH [OF v ts] show ?thesis
      by (simp add: Cons execute_next_normal)
  qed
qed

lemma execute_volume_pending:
  "\<forall>t \<in> set n. case t of mix_task frames fmt \<Rightarrow> True | _ \<Rightarrow> False \<Longrightarrow>
   master_volume (audio_mixer
     (fold (\<lambda>t m. snd (mixer_run ops t m))
        (high_lane (queue (execute (mixer_run ops) k
           \<lparr>members = m, queue = \<lparr>high_lane = h @ [set_master_volume_task v],
                                  normal_lane = n\<rparr>\<rparr>)))
        (members (execute (mixer_run ops) k
           \<lparr>members = m, queue = \<lparr>high_lane = h @ [set_master_volume_task v],
                                  normal_lane = n\<rparr>\<rparr>)))) = v"
proof (induction k arbitrary: m h)
  case 0
  then show ?case by simp
next
  case (Suc k)
  show ?case
  proof (cases h)
    case Nil
    have "master_volume (audio_mixer (snd (mixer_run ops (set_master_volume_task v) m))) = v"
      by simp
    from execute_volume_settled [OF this Suc.prems, of ops k] show ?thesis
      by (simp add: Nil execute_next_high)
  next
    case (Cons t ts)
    from Suc.IH [OF Suc.prems] show ?thesis
      by (simp add: Cons execute_next_high)
  qed
qed

section \<open>Properties of the batched transforms\<close>

lemma apply_transform_maps:
  "map_of (transforms (apply_transform i f d tw s)) =
     (map_of (transforms s))
       (i \<mapsto> make_tweened_transform
              (fetch (case map_of (transforms s) i of
                        None \<Rightarrow> default_tweened_transform | Some tt \<Rightarrow> tt))
              (f (fetch (case map_of (transforms s) i of
                        None \<Rightarrow> default_tweened_transform | Some tt \<Rightarrow> tt))) d tw)
   \<and> layers (apply_transform i f d tw s) = layers s
   \<and> logged (apply_transform i f d tw s) = logged s"
  by (auto simp: apply_transform_def map_index_def map_of_map_put Let_def fun_eq_iff
      split: option.splits)

lemma apply_transforms_Cons:
  "apply_transforms ((i, f, d, tw) # ts) s = apply_transforms ts (apply_transform i f d tw s)"
  by (simp add: apply_transforms_def)

lemma apply_transforms_other:
  "i \<notin> fst ` set ts \<Longrightarrow>
   map_of (transforms (apply_transforms ts s)) i = map_of (transforms s) i"
proof (induction ts arbitrary: s)
  case Nil
  then show ?case by (simp add: apply_transforms_def)
next
  case (Cons x ts)
  obtain j f d tw where x: "x = (j, f, d, tw)" by (cases x) auto
  from Cons.prems x have ji: "j \<noteq> i" and i: "i \<notin> fst ` set ts" by auto
  from Cons.IH [OF i] ji show ?case
    by (simp add: x apply_transforms_Cons apply_transform_maps)
qed

lemma apply_transforms_layers:
  "layers (apply_transforms ts s) = layers s \<and> logged (apply_transforms ts s) = logged s"
proof (induction ts arbitrary: s)
  case Nil
  then show ?case by (simp add: apply_transforms_def)
next
  case (Cons x ts)
  obtain j f d tw where x: "x = (j, f, d, tw)" by (cases x) auto
  from Cons.IH show ?case
    by (simp add: x apply_transforms_Cons apply_transform_maps)
qed

lemma apply_transforms_all:
  "distinct (map fst ts) \<Longrightarrow> (i, f, d, tw) \<in> set ts \<Longrightarrow>
   map_of (transforms (apply_transforms ts s)) i =
     Some (make_tweened_transform
             (fetch (case map_of (transforms s) i of
                       None \<Rightarrow> default_tweened_transform | Some tt \<Rightarrow> tt))
             (f (fetch (case map_of (transforms s) i of
                       None \<Rightarrow> default_tweened_transform | Some tt \<Rightarrow> tt))) d tw)"
proof (induction ts arbitrary: s)
  case Nil
  then show ?case by simp
next
  case (Cons x ts)
  obtain j g e tv where x: "x = (j, g, e, tv)" by (cases x) auto
  from Cons.prems(1) x have j: "j \<notin> fst ` set ts" and d: "distinct (map fst ts)" by auto
  show ?case
  proof (cases "(i, f, d, tw) \<in> set ts")
    case True
    with j have "j \<noteq> i" by force
    with Cons.IH [OF d True, of "apply_transform j g e tv s"] show ?thesis
      by (simp add: x apply_transforms_Cons apply_transform_maps)
  next
    case False
    with Cons.prems(2) x have eq: "j = i" "g = f" "e = d" "tv = tw" by auto
    from j eq have "i \<notin> fst ` set ts" by simp
    from apply_transforms_other [OF this, of "apply_transform i f d tw s"] show ?thesis
      by (simp add: x eq apply_transforms_Cons apply_transform_maps)
  qed
qed

section \<open>A fault during production\<close>

text \<open>
  C2, as stated, fails: the slots of the frame map are filled with the empty frame before the
  loop starts, and the \<^verbatim>\<open>catch\<close> block returns the map as it is. With the single layer
  \<open>''fault''\<close> at index 0, whose production throws, the returned frame map is not empty: it has
  the entry for index 0.
\<close>

theorem produce_fault_frames_counterexample:
  "fst (produce named_layer_ops [0]
          \<lparr>width = 720, height = 576, square_width = 1024, square_height = 576,
           field_mode = upper\<rparr>
          \<lparr>layers = [(0, ''fault'')], transforms = [], logged = []\<rparr>)
   \<noteq> []"
  by (simp add: produce_def produce_layer_def empty_frames_def map_index_def
      fetch_and_tick_def fetch_def default_tweened_transform_def named_layer_ops_def
      produce_catch_def map_clear_def Let_def)

text \<open>
  C2, amended: when a layer's production throws during the loop of a produce call (the loop
  visits each layer once, in any order), produce returns to its caller the frame map as the
  loop has assembled it up to the exception. That map has one entry for every layer the Stage
  held when the call began: a layer that the loop had produced before the exception has its
  produced frame, and the layer that threw and every layer the loop had not got to have the
  empty frame. All layers are dropped and the exception is logged, once. The result of
  \<open>produce\<close> is a frame map and a state: no exception reaches the caller.
\<close>

theorem produce_fault_keeps_slots:
  fixes ops :: "('l, 'p, 'r, 'i) layer_ops"
  assumes "distinct order"
      and "parallel_for_each (produce_layer ops fmt) order (s, empty_frames (layers s))
             = (Some e, s1, frames1)"
  shows "fst (produce ops order fmt s) = frames1
         \<and> set (map_keys frames1) = set (map_keys (layers s))
         \<and> (\<exists>pre k post l.
               order = pre @ k # post
               \<and> map_of (layers s) k = Some l
               \<and> layer_receive ops l
                    (layer_flags fmt (fst (fetch_and_tick 1
                       (case map_of (transforms s) k of
                          None \<Rightarrow> default_tweened_transform | Some tt \<Rightarrow> tt)))) = Inl e
               \<and> map_of frames1 k = Some empty_frame
               \<and> (\<forall>j. j \<notin> set pre \<and> j \<in> set (map_keys (layers s))
                      \<longrightarrow> map_of frames1 j = Some empty_frame)
               \<and> (\<forall>j lj. j \<in> set pre \<and> map_of (layers s) j = Some lj \<longrightarrow>
                     (\<exists>frame l'.
                        layer_receive ops lj
                          (layer_flags fmt (fst (fetch_and_tick 1
                             (case map_of (transforms s) j of
                                None \<Rightarrow> default_tweened_transform | Some tt \<Rightarrow> tt))))
                          = Inr (frame, l')
                        \<and> map_of frames1 j =
                            Some (if field_mode fmt \<noteq> progressive
                                  then interlace
                                    (wrap frame (fst (fetch_and_tick 1
                                       (case map_of (transforms s) j of
                                          None \<Rightarrow> default_tweened_transform
                                        | Some tt \<Rightarrow> tt))))
                                    (wrap frame (fst (fetch_and_tick 1 (snd (fetch_and_tick 1
                                       (case map_of (transforms s) j of
                                          None \<Rightarrow> default_tweened_transform
                                        | Some tt \<Rightarrow> tt))))))
                                    (field_mode fmt)
                                  else wrap frame (fst (fetch_and_tick 1
                                       (case map_of (transforms s) j of
                                          None \<Rightarrow> default_tweened_transform
                                        | Some tt \<Rightarrow> tt)))))))
         \<and> layers (snd (produce ops order fmt s)) = []
         \<and> logged (snd (produce ops order fmt s)) = logged s @ [e]"
proof -
  let ?body = "produce_layer ops fmt"
  let ?frames0 = "empty_frames (layers s) :: 'r draw_frame std_map"
  note run = assms(2)
  note res = produce_thrown [OF run]
  from produce_loop_doms [OF run dom_empty_frames]
  have keys: "set (map_keys frames1) = set (map_keys (layers s))"
    by (simp add: set_map_keys)
  from produce_loop_logged [OF run] have lg: "logged s1 = logged s" .
  from parallel_for_each_thrown [OF run] obtain pre k post st0 where
    ord: "order = pre @ k # post" and
    r1: "parallel_for_each ?body pre (s, ?frames0) = (None, st0)" and
    r2: "?body k st0 = (Some e, s1, frames1)" by blast
  obtain s0 frames0 where st0: "st0 = (s0, frames0)" by (cases st0)
  from ord assms(1) have kpre: "k \<notin> set pre" and dpre: "distinct pre" by auto
  from produce_loop_local [OF r1 [unfolded st0] kpre]
  have e1: "map_of (layers s0) k = map_of (layers s) k"
    "map_of (transforms s0) k = map_of (transforms s) k"
    "map_of frames0 k = map_of ?frames0 k"
    by simp_all
  from produce_layer_thrown [OF r2 [unfolded st0]]
  have t: "map_of (layers s0) k \<noteq> None" "frames1 = frames0" by simp_all
  from t(1) e1(1) obtain l where l: "map_of (layers s) k = Some l" by auto
  with e1(1) have l0: "map_of (layers s0) k = Some l" by simp
  from produce_layer_maps [OF l0 r2 [unfolded st0]] e1(2)
  have thrown: "layer_receive ops l
      (layer_flags fmt (fst (fetch_and_tick 1
         (case map_of (transforms s) k of
            None \<Rightarrow> default_tweened_transform | Some tt \<Rightarrow> tt)))) = Inl e"
    by (auto simp: Let_def split: sum.splits prod.splits if_splits)
  have rest: "map_of frames1 j = Some empty_frame"
    if "j \<notin> set pre" "j \<in> set (map_keys (layers s))" for j
  proof -
    from produce_loop_local [OF r1 [unfolded st0] that(1)]
    have "map_of frames0 j = map_of ?frames0 j" by simp
    with that(2) t(2) show ?thesis by (simp add: map_of_empty_frames)
  qed
  from l have kk: "k \<in> set (map_keys (layers s))"
    using map_of_eq_None_keys [of "layers s" k] by auto
  from rest [OF kpre kk] have slot: "map_of frames1 k = Some empty_frame" .
  have made: "\<exists>frame l'.
      layer_receive ops lj
        (layer_flags fmt (fst (fetch_and_tick 1
           (case map_of (transforms s) j of
              None \<Rightarrow> default_tweened_transform | Some tt \<Rightarrow> tt))))
        = Inr (frame, l')
      \<and> map_of frames1 j =
          Some (if field_mode fmt \<noteq> progressive
                then interlace
                  (wrap frame (fst (fetch_and_tick 1
                     (case map_of (transforms s) j of
                        None \<Rightarrow> default_tweened_transform | Some tt \<Rightarrow> tt))))
                  (wrap frame (fst (fetch_and_tick 1 (snd (fetch_and_tick 1
                     (case map_of (transforms s) j of
                        None \<Rightarrow> default_tweened_transform | Some tt \<Rightarrow> tt))))))
                  (field_mode fmt)
                else wrap frame (fst (fetch_and_tick 1
                     (case map_of (transforms s) j of
                        None \<Rightarrow> default_tweened_transform | Some tt \<Rightarrow> tt))))"
    if "j \<in> set pre" "map_of (layers s) j = Some lj" for j lj
    using produce_loop_done [OF r1 [unfolded st0] dpre that, unfolded Let_def]
    unfolding t(2) by blast
  from ord l thrown slot rest made
  have "\<exists>pre k post l.
               order = pre @ k # post
               \<and> map_of (layers s) k = Some l
               \<and> layer_receive ops l
                    (layer_flags fmt (fst (fetch_and_tick 1
                       (case map_of (transforms s) k of
                          None \<Rightarrow> default_tweened_transform | Some tt \<Rightarrow> tt)))) = Inl e
               \<and> map_of frames1 k = Some empty_frame
               \<and> (\<forall>j. j \<notin> set pre \<and> j \<in> set (map_keys (layers s))
                      \<longrightarrow> map_of frames1 j = Some empty_frame)
               \<and> (\<forall>j lj. j \<in> set pre \<and> map_of (layers s) j = Some lj \<longrightarrow>
                     (\<exists>frame l'.
                        layer_receive ops lj
                          (layer_flags fmt (fst (fetch_and_tick 1
                             (case map_of (transforms s) j of
                                None \<Rightarrow> default_tweened_transform | Some tt \<Rightarrow> tt))))
                          = Inr (frame, l')
                        \<and> map_of frames1 j =
                            Some (if field_mode fmt \<noteq> progressive
                                  then interlace
                                    (wrap frame (fst (fetch_and_tick 1
                                       (case map_of (transforms s) j of
                                          None \<Rightarrow> default_tweened_transform
                                        | Some tt \<Rightarrow> tt))))
                                    (wrap frame (fst (fetch_and_tick 1 (snd (fetch_and_tick 1
                                       (case map_of (transforms s) j of
                                          None \<Rightarrow> default_tweened_transform
                                        | Some tt \<Rightarrow> tt))))))
                                    (field_mode fmt)
                                  else wrap frame (fst (fetch_and_tick 1
                                       (case map_of (transforms s) j of
                                          None \<Rightarrow> default_tweened_transform
                                        | Some tt \<Rightarrow> tt))))))"
    by blast
  with res keys lg show ?thesis by simp
qed

theorem produce_fault_keeps_slots_witness:
  "distinct [1 :: int, 2, 3]
   \<and> parallel_for_each
        (produce_layer named_layer_ops
           \<lparr>width = 720, height = 576, square_width = 1024, square_height = 576,
            field_mode = upper\<rparr>) [1, 2, 3]
        (\<lparr>layers = [(1, ''a''), (2, ''fault''), (3, ''c'')], transforms = [], logged = []\<rparr>,
         empty_frames [(1, ''a''), (2, ''fault''), (3, ''c'')] :: string draw_frame std_map)
     = (Some (exception ''fault''),
        \<lparr>layers = [(1, ''a''), (2, ''fault''), (3, ''c'')],
         transforms = [(1, default_tweened_transform), (2, default_tweened_transform)],
         logged = []\<rparr>,
        [(1, interlace (wrap ''a'' default_frame_transform)
                       (wrap ''a'' default_frame_transform) upper),
         (2, empty_frame), (3, empty_frame)])
   \<and> fst (produce named_layer_ops [1, 2, 3]
        \<lparr>width = 720, height = 576, square_width = 1024, square_height = 576,
         field_mode = upper\<rparr>
        \<lparr>layers = [(1, ''a''), (2, ''fault''), (3, ''c'')], transforms = [], logged = []\<rparr>)
     = [(1, interlace (wrap ''a'' default_frame_transform)
                      (wrap ''a'' default_frame_transform) upper),
        (2, empty_frame), (3, empty_frame)]
   \<and> layers (snd (produce named_layer_ops [1, 2, 3]
        \<lparr>width = 720, height = 576, square_width = 1024, square_height = 576,
         field_mode = upper\<rparr>
        \<lparr>layers = [(1, ''a''), (2, ''fault''), (3, ''c'')], transforms = [], logged = []\<rparr>))
     = []
   \<and> logged (snd (produce named_layer_ops [1, 2, 3]
        \<lparr>width = 720, height = 576, square_width = 1024, square_height = 576,
         field_mode = upper\<rparr>
        \<lparr>layers = [(1, ''a''), (2, ''fault''), (3, ''c'')], transforms = [], logged = []\<rparr>))
     = [exception ''fault'']"
proof -
  let ?fmt = "\<lparr>width = 720, height = 576, square_width = 1024, square_height = 576,
               field_mode = upper\<rparr>"
  let ?s = "\<lparr>layers = [(1, ''a''), (2, ''fault''), (3, ''c'')], transforms = [],
             logged = []\<rparr>"
  have d: "distinct [1 :: int, 2, 3]" by simp
  have f: "parallel_for_each (produce_layer named_layer_ops ?fmt) [1, 2, 3]
             (?s, empty_frames (layers ?s) :: string draw_frame std_map)
           = (Some (exception ''fault''),
              \<lparr>layers = [(1, ''a''), (2, ''fault''), (3, ''c'')],
               transforms = [(1, default_tweened_transform), (2, default_tweened_transform)],
               logged = []\<rparr>,
              [(1, interlace (wrap ''a'' default_frame_transform)
                             (wrap ''a'' default_frame_transform) upper),
               (2, empty_frame), (3, empty_frame)])"
    by (simp add: produce_layer_def empty_frames_def map_index_def
        fetch_and_tick_def fetch_def default_tweened_transform_def named_layer_ops_def Let_def)
  note th = produce_fault_keeps_slots [OF d f]
  note frames = th [THEN conjunct1]
  note state = th [THEN conjunct2, THEN conjunct2, THEN conjunct2]
  from d f frames state show ?thesis
    by simp
qed

section \<open>The order of the visits in the Mixer\<close>

text \<open>
  C3, as stated, fails: the loop has the frame accept the audio mixer first and sets the layer
  depth after that. A frame that comes in with layer depth 0 is seen by the audio mixer with
  layer depth 0.
\<close>

theorem mix_audio_before_depth_counterexample:
  "map (\<lambda>f. layer_depth (image_transform (transform f)))
     (audio_items (audio_mixer (mix_frames
        [(0, \<lparr>content = ''clip'',
               transform = \<lparr>image_transform = \<lparr>layer_depth = 0\<rparr>, audio_transform = ()\<rparr>\<rparr>)]
        \<lparr>audio_mixer = \<lparr>master_volume = (1 :: real), audio_items = []\<rparr>,
         image_mixer = \<lparr>image_items = []\<rparr>,
         current_aspect_ratio = double_quotient 1 1, mixer_logged = []\<rparr>)))
   = [0]"
  by (simp add: mix_frames_def mix_frame_def accept_audio_def accept_image_def Let_def)

text \<open>
  C3, amended: for every frame map passed to the Mixer's mix operation and every frame in it
  (visited in iteration order), the frame accepts the audio-mixing accumulator first, with the
  layer depth it came with; then its layer depth is set to 1; then it accepts the
  image-mixing accumulator, with layer depth 1 and otherwise as it came.
\<close>

theorem mix_frames_depth_between_visits:
  "audio_items (audio_mixer (mix_frames frames m)) = audio_items (audio_mixer m) @ map snd frames
   \<and> image_items (image_mixer (mix_frames frames m)) =
       image_items (image_mixer m) @
         map (\<lambda>p. (snd p)\<lparr>transform := (transform (snd p))\<lparr>image_transform :=
             (image_transform (transform (snd p)))\<lparr>layer_depth := 1\<rparr>\<rparr>\<rparr>) frames
   \<and> (\<forall>f \<in> set (drop (length (image_items (image_mixer m)))
                      (image_items (image_mixer (mix_frames frames m)))).
         layer_depth (image_transform (transform f)) = 1)"
  by (simp add: mix_frames_audio mix_frames_image)

theorem mix_frames_depth_between_visits_witness:
  "map (\<lambda>f. layer_depth (image_transform (transform f)))
     (image_items (image_mixer (mix_frames
        [(0, \<lparr>content = ''clip'',
               transform = \<lparr>image_transform = \<lparr>layer_depth = 0\<rparr>, audio_transform = ()\<rparr>\<rparr>),
         (1, \<lparr>content = ''logo'',
               transform = \<lparr>image_transform = \<lparr>layer_depth = 5\<rparr>, audio_transform = ()\<rparr>\<rparr>)]
        \<lparr>audio_mixer = \<lparr>master_volume = (1 :: real), audio_items = []\<rparr>,
         image_mixer = \<lparr>image_items = []\<rparr>,
         current_aspect_ratio = double_quotient 1 1, mixer_logged = []\<rparr>)))
   = [1, 1]
   \<and> map (\<lambda>f. layer_depth (image_transform (transform f)))
     (audio_items (audio_mixer (mix_frames
        [(0, \<lparr>content = ''clip'',
               transform = \<lparr>image_transform = \<lparr>layer_depth = 0\<rparr>, audio_transform = ()\<rparr>\<rparr>),
         (1, \<lparr>content = ''logo'',
               transform = \<lparr>image_transform = \<lparr>layer_depth = 5\<rparr>, audio_transform = ()\<rparr>\<rparr>)]
        \<lparr>audio_mixer = \<lparr>master_volume = (1 :: real), audio_items = []\<rparr>,
         image_mixer = \<lparr>image_items = []\<rparr>,
         current_aspect_ratio = double_quotient 1 1, mixer_logged = []\<rparr>)))
   = [0, 5]"
  using mix_frames_depth_between_visits [of
        "[(0, \<lparr>content = ''clip'',
               transform = \<lparr>image_transform = \<lparr>layer_depth = 0\<rparr>, audio_transform = ()\<rparr>\<rparr>),
         (1, \<lparr>content = ''logo'',
               transform = \<lparr>image_transform = \<lparr>layer_depth = 5\<rparr>, audio_transform = ()\<rparr>\<rparr>)]"
        "\<lparr>audio_mixer = \<lparr>master_volume = (1 :: real), audio_items = []\<rparr>,
         image_mixer = \<lparr>image_items = []\<rparr>,
         current_aspect_ratio = double_quotient 1 1, mixer_logged = []\<rparr>"]
  by simp

section \<open>The deinterlace flag\<close>

text \<open>
  The literal is a little above one ten-thousandth, by less than 10^-20.
\<close>

lemma double_0_0001_bounds:
  "1 / 10000 < double_0_0001" "double_0_0001 < 1 / 10000 + 1 / 10 ^ 20" "double_0_0001 < 1 / 2"
  "double_0_0001 < 1 / 1000"
  by (simp_all add: double_0_0001_def)

text \<open>
  The subtraction of doubles rounds the exact difference to a double. Whatever the rounding
  \<open>fl\<close> is, if it is monotone, gives 1 for 1 and -1/2 for -1/2 (they are doubles) and does not
  round the difference of a double between 1/2 and 2 and 1 (which is a double), then the
  rounded difference exceeds the literal exactly when the exact one does.
\<close>

lemma rounded_difference_compares_alike:
  assumes mono: "\<And>a b. a \<le> b \<Longrightarrow> fl a \<le> fl b"
      and one: "fl 1 = 1" and half: "fl (- (1 / 2)) = - (1 / 2)"
      and exact: "1 / 2 \<le> x \<Longrightarrow> x \<le> 2 \<Longrightarrow> fl (x - 1) = x - 1"
  shows "\<bar>fl (x - 1)\<bar> > double_0_0001 \<longleftrightarrow> \<bar>x - 1\<bar> > double_0_0001"
proof -
  note c = double_0_0001_bounds(3)
  consider "x < 1 / 2" | "1 / 2 \<le> x \<and> x \<le> 2" | "2 < x" by linarith
  then show ?thesis
  proof cases
    case 1
    then have "x - 1 \<le> - (1 / 2)" by simp
    from mono [OF this] half have "fl (x - 1) \<le> - (1 / 2)" by simp
    with 1 c show ?thesis by (simp add: abs_if)
  next
    case 2
    with exact show ?thesis by simp
  next
    case 3
    then have "1 \<le> x - 1" by simp
    from mono [OF this] one have "1 \<le> fl (x - 1)" by simp
    with 3 c show ?thesis by (simp add: abs_if)
  qed
qed

text \<open>
  C4: the flags that production computes for a layer from the snapshot \<open>t\<close> of its transform
  have \<open>deinterlace\<close> if and only if the format's field mode is not progressive and the
  vertical fill scale differs from 1 by more than 0.0001 or the vertical fill translation
  differs from 0 by more than 0.0001, where 0.0001 is the double that the literal of the code
  is. Under an interlaced format, a vertical fill scale of 1.00005 (the double nearest to it,
  or any number within 10^-9 of it), with a vertical fill translation that does not exceed
  the literal, is not flagged, and a vertical fill scale of 1.01 is flagged. These are the
  flags under which the body of the loop asks the layer for its frame: whether the body
  throws is what \<open>layer_receive\<close> does under them.
\<close>

theorem deinterlace_flag_iff:
  "(deinterlace \<in> layer_flags format_desc t \<longleftrightarrow>
      field_mode format_desc \<noteq> progressive
      \<and> (\<bar>snd (fill_scale t) - 1\<bar> > double_0_0001
          \<or> \<bar>snd (fill_translation t)\<bar> > double_0_0001))
   \<and> double_0_0001 = 7378697629483821 / 2 ^ 66
   \<and> (field_mode format_desc \<noteq> progressive
        \<and> \<bar>snd (fill_scale t1) - 1.00005\<bar> \<le> 1 / 10 ^ 9
        \<and> \<bar>snd (fill_translation t1)\<bar> \<le> double_0_0001
      \<longrightarrow> deinterlace \<notin> layer_flags format_desc t1)
   \<and> (field_mode format_desc \<noteq> progressive
        \<and> \<bar>snd (fill_scale t2) - 1.01\<bar> \<le> 1 / 10 ^ 9
      \<longrightarrow> deinterlace \<in> layer_flags format_desc t2)
   \<and> (map_of (layers s) k = Some l
      \<longrightarrow> fst (produce_layer ops format_desc k (s, frames)) =
            (case layer_receive ops l
                    (layer_flags format_desc
                       (fst (fetch_and_tick 1
                          (fst (map_index default_tweened_transform k (transforms s))))))
             of Inl e \<Rightarrow> Some e | Inr x \<Rightarrow> None))"
proof -
  have 1: "deinterlace \<in> layer_flags format_desc t \<longleftrightarrow>
      field_mode format_desc \<noteq> progressive
      \<and> (\<bar>snd (fill_scale t) - 1\<bar> > double_0_0001
          \<or> \<bar>snd (fill_translation t)\<bar> > double_0_0001)"
    by (simp add: layer_flags_def Let_def)
  have 2: "double_0_0001 = 7378697629483821 / 2 ^ 66"
    by (simp add: double_0_0001_def)
  have 3: "deinterlace \<notin> layer_flags format_desc t1"
    if "field_mode format_desc \<noteq> progressive"
      "\<bar>snd (fill_scale t1) - 1.00005\<bar> \<le> 1 / 10 ^ 9"
      "\<bar>snd (fill_translation t1)\<bar> \<le> double_0_0001"
  proof -
    from that(2) have "\<bar>snd (fill_scale t1) - 1\<bar> \<le> 1 / 10000"
      by (simp add: abs_if split: if_splits)
    with double_0_0001_bounds(1) have "\<not> \<bar>snd (fill_scale t1) - 1\<bar> > double_0_0001"
      by linarith
    with that(1,3) show ?thesis
      by (simp add: layer_flags_def Let_def)
  qed
  have 4: "deinterlace \<in> layer_flags format_desc t2"
    if "field_mode format_desc \<noteq> progressive"
      "\<bar>snd (fill_scale t2) - 1.01\<bar> \<le> 1 / 10 ^ 9"
  proof -
    from that(2) have "\<bar>snd (fill_scale t2) - 1\<bar> > 1 / 1000"
      by (simp add: abs_if split: if_splits)
    with double_0_0001_bounds(4) have "\<bar>snd (fill_scale t2) - 1\<bar> > double_0_0001"
      by linarith
    with that(1) show ?thesis
      by (simp add: layer_flags_def Let_def)
  qed
  have 5: "map_of (layers s) k = Some l
      \<longrightarrow> fst (produce_layer ops format_desc k (s, frames)) =
            (case layer_receive ops l
                    (layer_flags format_desc
                       (fst (fetch_and_tick 1
                          (fst (map_index default_tweened_transform k (transforms s))))))
             of Inl e \<Rightarrow> Some e | Inr x \<Rightarrow> None)"
    by (simp add: produce_layer_def Let_def split: prod.splits sum.splits)
  from 1 2 3 4 5 show ?thesis by blast
qed

text \<open>
  At the doubles themselves: 4503824807351865 / 2^52 is the double nearest to 1.00005,
  4548635623644201 / 2^52 the one nearest to 1.01, and a vertical fill translation that is
  the literal itself does not exceed it.
\<close>

theorem deinterlace_flag_iff_witness:
  "field_mode \<lparr>width = 720, height = 576, square_width = 1024, square_height = 576,
               field_mode = upper\<rparr> \<noteq> progressive
   \<and> deinterlace \<notin> layer_flags
        \<lparr>width = 720, height = 576, square_width = 1024, square_height = 576,
         field_mode = upper\<rparr>
        (default_frame_transform\<lparr>fill_scale := (1, 4503824807351865 / 2 ^ 52),
           fill_translation := (0, 7378697629483821 / 2 ^ 66)\<rparr>)
   \<and> deinterlace \<in> layer_flags
        \<lparr>width = 720, height = 576, square_width = 1024, square_height = 576,
         field_mode = upper\<rparr>
        (default_frame_transform\<lparr>fill_scale := (1, 4548635623644201 / 2 ^ 52)\<rparr>)
   \<and> fst (produce_layer named_layer_ops
        \<lparr>width = 720, height = 576, square_width = 1024, square_height = 576,
         field_mode = upper\<rparr> 0
        (\<lparr>layers = [(0, ''clip'')], transforms = [], logged = []\<rparr>, [(0, empty_frame)]))
      = None"
  using deinterlace_flag_iff [of
      "\<lparr>width = 720, height = 576, square_width = 1024, square_height = 576,
        field_mode = upper\<rparr>"
      "default_frame_transform\<lparr>fill_scale := (1, 4548635623644201 / 2 ^ 52)\<rparr>"
      "default_frame_transform\<lparr>fill_scale := (1, 4503824807351865 / 2 ^ 52),
         fill_translation := (0, 7378697629483821 / 2 ^ 66)\<rparr>"
      "default_frame_transform\<lparr>fill_scale := (1, 4548635623644201 / 2 ^ 52)\<rparr>"
      "\<lparr>layers = [(0, ''clip'')], transforms = [], logged = []\<rparr>" 0 "''clip''"
      named_layer_ops "[(0, empty_frame)]"]
  by (simp add: default_frame_transform_def named_layer_ops_def double_0_0001_def)

section \<open>Ticks per produce call\<close>

text \<open>
  C5: in a produce call in which no layer throws (the loop visits each layer once, in any
  order), the layer at index \<open>k\<close> is asked for one raw frame, under the flags of the first
  snapshot. When the field mode is not progressive, its TweenedTransform has been advanced by
  two ticks (the elapsed ticks have grown by two, up to the duration), and its entry in the
  frame map is the interlacing, under the format's field mode, of the raw frame wrapped with
  the snapshot of the first tick and the same raw frame wrapped with the snapshot of the
  second tick. When the field mode is progressive, the transform has been advanced by one
  tick and the entry is the raw frame wrapped with the one snapshot. A layer that has no
  TweenedTransform starts from the default-constructed one.
\<close>

theorem produce_ticks_per_field:
  fixes ops :: "('l, 'p, 'r, 'i) layer_ops"
  assumes "distinct order" and "k \<in> set order" and "map_of (layers s) k = Some l"
      and "fst (parallel_for_each (produce_layer ops fmt) order (s, empty_frames (layers s))) = None"
  shows "let tt0 = (case map_of (transforms s) k of
                      None \<Rightarrow> default_tweened_transform | Some tt \<Rightarrow> tt);
             t1 = fst (fetch_and_tick 1 tt0); tt1 = snd (fetch_and_tick 1 tt0);
             t2 = fst (fetch_and_tick 1 tt1); tt2 = snd (fetch_and_tick 1 tt1);
             frames = fst (produce ops order fmt s); s' = snd (produce ops order fmt s)
         in \<exists>frame l'. layer_receive ops l (layer_flags fmt t1) = Inr (frame, l')
              \<and> map_of (layers s') k = Some l'
              \<and> (if field_mode fmt \<noteq> progressive
                  then map_of (transforms s') k = Some tt2
                       \<and> time tt2 = min (time tt0 + 2) (duration tt0)
                       \<and> map_of frames k =
                           Some (interlace (wrap frame t1) (wrap frame t2) (field_mode fmt))
                  else map_of (transforms s') k = Some tt1
                       \<and> time tt1 = min (time tt0 + 1) (duration tt0)
                       \<and> map_of frames k = Some (wrap frame t1))"
proof -
  let ?body = "produce_layer ops fmt"
  let ?st0 = "(s, empty_frames (layers s) :: 'r draw_frame std_map)"
  obtain s3 frames3 where run: "parallel_for_each ?body order ?st0 = (None, s3, frames3)"
    using assms(4) by (cases "parallel_for_each ?body order ?st0") auto
  then have res: "produce ops order fmt s = (frames3, s3)"
    by (simp add: produce_def Let_def)
  from assms(2) obtain pre post where ord: "order = pre @ k # post"
    by (auto dest: split_list)
  with assms(1) have kpre: "k \<notin> set pre" and kpost: "k \<notin> set post" by auto
  from run ord obtain st1 st2 where
    r1: "parallel_for_each ?body pre ?st0 = (None, st1)" and
    r2: "?body k st1 = (None, st2)" and
    r3: "parallel_for_each ?body post st2 = (None, s3, frames3)"
    using produce_loop_split [of ?body pre k post ?st0 "(s3, frames3)"] by auto
  obtain s1 frames1 where st1: "st1 = (s1, frames1)" by (cases st1)
  obtain s2 frames2 where st2: "st2 = (s2, frames2)" by (cases st2)
  from produce_loop_local [OF r1 [unfolded st1] kpre]
  have e1: "map_of (layers s1) k = Some l" "map_of (transforms s1) k = map_of (transforms s) k"
    using assms(3) by simp_all
  from produce_loop_local [OF r3 [unfolded st2] kpost]
  have e3: "map_of (layers s3) k = map_of (layers s2) k"
    "map_of (transforms s3) k = map_of (transforms s2) k"
    "map_of frames3 k = map_of frames2 k" by simp_all
  from produce_layer_maps [OF e1(1) r2 [unfolded st1 st2]] e1(2) e3 res
  show ?thesis
    by (auto simp: Let_def tick_time tick_fields min_Suc_min split: sum.splits prod.splits if_splits)
qed

theorem produce_ticks_per_field_witness:
  "distinct [0 :: int] \<and> (0 :: int) \<in> set [0]
   \<and> map_of (layers \<lparr>layers = [(0, ''clip'')],
          transforms = [(0, make_tweened_transform default_frame_transform
                              default_frame_transform 5 linear_tweener)],
          logged = []\<rparr>) 0 = Some ''clip''
   \<and> fst (parallel_for_each
            (produce_layer named_layer_ops
              \<lparr>width = 720, height = 576, square_width = 1024, square_height = 576,
               field_mode = upper\<rparr>) [0]
            (\<lparr>layers = [(0, ''clip'')],
               transforms = [(0, make_tweened_transform default_frame_transform
                                   default_frame_transform 5 linear_tweener)],
               logged = []\<rparr>,
             empty_frames [(0, ''clip'')] :: string draw_frame std_map)) = None
   \<and> map_option time (map_of (transforms (snd (produce named_layer_ops [0]
          \<lparr>width = 720, height = 576, square_width = 1024, square_height = 576,
           field_mode = upper\<rparr>
          \<lparr>layers = [(0, ''clip'')],
           transforms = [(0, make_tweened_transform default_frame_transform
                               default_frame_transform 5 linear_tweener)],
           logged = []\<rparr>))) 0) = Some 2"
proof -
  let ?fmt = "\<lparr>width = 720, height = 576, square_width = 1024, square_height = 576,
               field_mode = upper\<rparr>"
  let ?tt = "make_tweened_transform default_frame_transform default_frame_transform 5
               linear_tweener"
  let ?s = "\<lparr>layers = [(0, ''clip'')], transforms = [(0, ?tt)], logged = []\<rparr>"
  have d: "distinct [0 :: int]" by simp
  have m: "(0 :: int) \<in> set [0]" by simp
  have l: "map_of (layers ?s) 0 = Some ''clip''" by simp
  have f: "fst (parallel_for_each (produce_layer named_layer_ops ?fmt) [0]
                 (?s, empty_frames (layers ?s) :: string draw_frame std_map)) = None"
    by (simp add: produce_layer_def empty_frames_def map_index_def
        fetch_and_tick_def fetch_def named_layer_ops_def Let_def)
  from produce_ticks_per_field [OF d m l f] f show ?thesis
    by (auto simp: Let_def make_tweened_transform_def fetch_and_tick_def)
qed

section \<open>A batch of transforms is one task\<close>

text \<open>
  C6: \<open>stage_apply_transforms\<close> puts the whole batch on the Stage's queue as one task, on the
  high lane. While that task is pending, the executor's steps leave the members as they would
  be without it: none of the changes is applied. The step that runs the task takes the members
  to \<open>apply_transforms\<close> of the batch: all of the replacements are made within that step. So
  at every boundary between tasks, which is where a produce task starts, none or all of the
  batch has been applied, and the produce call that follows the batch runs on members that
  have all of it. For a batch whose indices are distinct, all of it means that every listed
  index has the TweenedTransform made from its snapshot before the batch, the function
  applied to that snapshot, the duration and the easing.
\<close>

theorem apply_transforms_atomic:
  fixes a :: "('l, 'p) stage" and ops :: "('l, 'p, 'r, 'i) layer_ops"
  shows
  "queue (stage_apply_transforms ts a) =
     (queue a)\<lparr>high_lane := high_lane (queue a) @ [apply_transforms_task ts]\<rparr>
   \<and> (\<forall>n \<le> length (high_lane (queue a)).
        members (execute (stage_run ops) n (stage_apply_transforms ts a)) =
          members (execute (stage_run ops) n a)
        \<and> high_lane (queue (execute (stage_run ops) n (stage_apply_transforms ts a))) =
            drop n (high_lane (queue a)) @ [apply_transforms_task ts])
   \<and> members (execute (stage_run ops) (Suc (length (high_lane (queue a))))
                (stage_apply_transforms ts a)) =
       apply_transforms ts (members (execute (stage_run ops) (length (high_lane (queue a))) a))
   \<and> stage_produce ops order fmt (stage_apply_transforms ts a) =
       Some (frames_result (fst (produce ops order fmt
               (fold (\<lambda>t s. snd (stage_run ops t s)) (normal_lane (queue a))
                  (apply_transforms ts
                     (fold (\<lambda>t s. snd (stage_run ops t s)) (high_lane (queue a))
                        (members a)))))),
             \<lparr>members = snd (produce ops order fmt
               (fold (\<lambda>t s. snd (stage_run ops t s)) (normal_lane (queue a))
                  (apply_transforms ts
                     (fold (\<lambda>t s. snd (stage_run ops t s)) (high_lane (queue a))
                        (members a))))),
              queue = \<lparr>high_lane = [], normal_lane = []\<rparr>\<rparr>)
   \<and> (distinct (map fst ts) \<longrightarrow>
        (\<forall>(i, f, d, tw) \<in> set ts.
           map_of (transforms (apply_transforms ts s)) i =
             Some (make_tweened_transform
                     (fetch (case map_of (transforms s) i of
                               None \<Rightarrow> default_tweened_transform | Some tt \<Rightarrow> tt))
                     (f (fetch (case map_of (transforms s) i of
                               None \<Rightarrow> default_tweened_transform | Some tt \<Rightarrow> tt))) d tw)))"
proof -
  let ?run = "stage_run ops"
  obtain m h n where a: "a = \<lparr>members = m, queue = \<lparr>high_lane = h, normal_lane = n\<rparr>\<rparr>"
    by (rule impl_cases)
  have b: "stage_apply_transforms ts a =
      \<lparr>members = m, queue = \<lparr>high_lane = h @ [apply_transforms_task ts], normal_lane = n\<rparr>\<rparr>"
    by (simp add: a stage_apply_transforms_def begin_invoke_def)
  have ah: "high_lane (queue a) = h" and an: "normal_lane (queue a) = n" and am: "members a = m"
    by (simp_all add: a)
  have a': "a = \<lparr>members = m, queue = \<lparr>high_lane = h @ [], normal_lane = n\<rparr>\<rparr>"
    by (simp add: a)
  have 1: "queue (stage_apply_transforms ts a) =
     (queue a)\<lparr>high_lane := high_lane (queue a) @ [apply_transforms_task ts]\<rparr>"
    by (simp add: stage_apply_transforms_def begin_invoke_def)
  have 2: "members (execute ?run k (stage_apply_transforms ts a)) = members (execute ?run k a)
        \<and> high_lane (queue (execute ?run k (stage_apply_transforms ts a))) =
            drop k (high_lane (queue a)) @ [apply_transforms_task ts]"
    if "k \<le> length (high_lane (queue a))" for k
  proof -
    from that have k: "k \<le> length h" by (simp add: ah)
    have "execute ?run k (stage_apply_transforms ts a) =
        \<lparr>members = fold (\<lambda>t m. snd (?run t m)) (take k h) m,
         queue = \<lparr>high_lane = drop k h @ [apply_transforms_task ts], normal_lane = n\<rparr>\<rparr>"
      unfolding b by (rule execute_high_prefix [OF k])
    moreover have "execute ?run k a =
        \<lparr>members = fold (\<lambda>t m. snd (?run t m)) (take k h) m,
         queue = \<lparr>high_lane = drop k h @ [], normal_lane = n\<rparr>\<rparr>"
      by (subst a') (rule execute_high_prefix [OF k])
    ultimately show ?thesis by (simp add: ah)
  qed
  have 3: "members (execute ?run (Suc (length (high_lane (queue a))))
                (stage_apply_transforms ts a)) =
       apply_transforms ts (members (execute ?run (length (high_lane (queue a))) a))"
  proof -
    have b': "stage_apply_transforms ts a =
        \<lparr>members = m,
         queue = \<lparr>high_lane = (h @ [apply_transforms_task ts]) @ [], normal_lane = n\<rparr>\<rparr>"
      by (simp add: b)
    have "execute ?run (Suc (length h)) (stage_apply_transforms ts a) =
        \<lparr>members = fold (\<lambda>t m. snd (?run t m))
                     (take (Suc (length h)) (h @ [apply_transforms_task ts])) m,
         queue = \<lparr>high_lane = drop (Suc (length h)) (h @ [apply_transforms_task ts]) @ [],
                  normal_lane = n\<rparr>\<rparr>"
      by (subst b') (rule execute_high_prefix, simp)
    moreover have "execute ?run (length h) a =
        \<lparr>members = fold (\<lambda>t m. snd (?run t m)) (take (length h) h) m,
         queue = \<lparr>high_lane = drop (length h) h @ [], normal_lane = n\<rparr>\<rparr>"
      by (subst a') (rule execute_high_prefix, simp)
    ultimately show ?thesis
      by (simp add: ah del: execute.simps)
  qed
  have 4: "stage_produce ops order fmt (stage_apply_transforms ts a) =
       Some (frames_result (fst (produce ops order fmt
               (fold (\<lambda>t s. snd (?run t s)) (normal_lane (queue a))
                  (apply_transforms ts
                     (fold (\<lambda>t s. snd (?run t s)) (high_lane (queue a)) (members a)))))),
             \<lparr>members = snd (produce ops order fmt
               (fold (\<lambda>t s. snd (?run t s)) (normal_lane (queue a))
                  (apply_transforms ts
                     (fold (\<lambda>t s. snd (?run t s)) (high_lane (queue a)) (members a))))),
              queue = \<lparr>high_lane = [], normal_lane = []\<rparr>\<rparr>)"
    by (simp add: ah an am b stage_produce_def invoke_normal split: prod.splits)
  have 5: "distinct (map fst ts) \<longrightarrow>
        (\<forall>(i, f, d, tw) \<in> set ts.
           map_of (transforms (apply_transforms ts s)) i =
             Some (make_tweened_transform
                     (fetch (case map_of (transforms s) i of
                               None \<Rightarrow> default_tweened_transform | Some tt \<Rightarrow> tt))
                     (f (fetch (case map_of (transforms s) i of
                               None \<Rightarrow> default_tweened_transform | Some tt \<Rightarrow> tt))) d tw))"
    using apply_transforms_all [of ts _ _ _ _ s] by auto
  from 1 2 3 4 5 show ?thesis by blast
qed

theorem apply_transforms_atomic_witness:
  "(0 :: nat) \<le> length (high_lane (queue
       \<lparr>members = \<lparr>layers = [(1, ''a'')], transforms = [], logged = []\<rparr>,
        queue = \<lparr>high_lane = [load_task 2 ''b'' False 0], normal_lane = []\<rparr>\<rparr>))
   \<and> distinct (map fst
        [(1 :: int, \<lambda>t. t\<lparr>opacity := 0\<rparr>, 0 :: nat, linear_tweener),
         (2, \<lambda>t. t\<lparr>opacity := 0\<rparr>, 0, linear_tweener)])
   \<and> map_option fst (stage_produce named_layer_ops [1, 2]
        \<lparr>width = 1280, height = 720, square_width = 1280, square_height = 720,
         field_mode = progressive\<rparr>
        (stage_apply_transforms
           [(1, \<lambda>t. t\<lparr>opacity := 0\<rparr>, 0, linear_tweener),
            (2, \<lambda>t. t\<lparr>opacity := 0\<rparr>, 0, linear_tweener)]
           \<lparr>members = \<lparr>layers = [(1, ''a'')], transforms = [], logged = []\<rparr>,
            queue = \<lparr>high_lane = [load_task 2 ''b'' False 0], normal_lane = []\<rparr>\<rparr>))
     = Some (frames_result
         [(1, wrap ''a'' (default_frame_transform\<lparr>opacity := 0\<rparr>)),
          (2, wrap ''b'' (default_frame_transform\<lparr>opacity := 0\<rparr>))])"
  using apply_transforms_atomic [of
      "[(1, \<lambda>t. t\<lparr>opacity := 0\<rparr>, 0, linear_tweener),
        (2, \<lambda>t. t\<lparr>opacity := 0\<rparr>, 0, linear_tweener)]"
      "\<lparr>members = \<lparr>layers = [(1, ''a'')], transforms = [], logged = []\<rparr>,
        queue = \<lparr>high_lane = [load_task 2 ''b'' False 0], normal_lane = []\<rparr>\<rparr>"
      named_layer_ops "[1, 2]"
      "\<lparr>width = 1280, height = 720, square_width = 1280, square_height = 720,
        field_mode = progressive\<rparr>"
      "\<lparr>layers = [(1, ''a'')], transforms = [], logged = []\<rparr>"]
  by (simp add: produce_def produce_layer_def empty_frames_def map_index_def
      fetch_and_tick_def fetch_def named_layer_ops_def Let_def load_def
      apply_transforms_def apply_transform_def make_tweened_transform_def
      default_tweened_transform_def)

section \<open>Reading the master volume back\<close>

text \<open>
  C7: on a Mixer whose normal lane holds mix tasks, whatever else is queued on the high lane
  and however many tasks the executor runs in between, \<open>set_master_volume v\<close> followed by
  \<open>get_master_volume\<close> returns \<open>v\<close>: the two tasks go to the high lane in this order, a lane
  is first in, first out, the call of \<open>get_master_volume\<close> waits for its task, and a mix task
  does not change the master volume. When the executor has run nothing in between, the mix
  tasks that were queued are still queued when the volume comes back: the two high-priority
  tasks have run ahead of them.
\<close>

theorem volume_read_after_write:
  assumes "\<forall>t \<in> set (normal_lane (queue a)). case t of mix_task frames fmt \<Rightarrow> True | _ \<Rightarrow> False"
  shows "(\<exists>a'. get_master_volume ops (execute (mixer_run ops) k (set_master_volume v a)) =
               Some (volume_result v, a'))
         \<and> (\<exists>a'. get_master_volume ops (set_master_volume v a) = Some (volume_result v, a')
               \<and> high_lane (queue a') = []
               \<and> normal_lane (queue a') = normal_lane (queue a))"
proof -
  obtain m h n where a: "a = \<lparr>members = m, queue = \<lparr>high_lane = h, normal_lane = n\<rparr>\<rparr>"
    by (rule impl_cases)
  from assms a
  have n: "\<forall>t \<in> set n. case t of mix_task frames fmt \<Rightarrow> True | _ \<Rightarrow> False" by simp
  have s: "set_master_volume v a =
      \<lparr>members = m, queue = \<lparr>high_lane = h @ [set_master_volume_task v], normal_lane = n\<rparr>\<rparr>"
    by (simp add: a set_master_volume_def begin_invoke_def)
  have q: "normal_lane (queue a) = n" by (simp add: a)
  have 1: "\<exists>a'. get_master_volume ops (execute (mixer_run ops) k (set_master_volume v a)) =
               Some (volume_result v, a')"
    using execute_volume_pending [OF n, of ops k m h v]
    by (simp add: s get_master_volume_def invoke_high)
  have 2: "\<exists>a'. get_master_volume ops (set_master_volume v a) = Some (volume_result v, a')
               \<and> high_lane (queue a') = []
               \<and> normal_lane (queue a') = normal_lane (queue a)"
    by (simp add: s q get_master_volume_def invoke_high)
  from 1 2 show ?thesis by blast
qed

theorem volume_read_after_write_witness:
  "list_all (\<lambda>t. case t of mix_task frames fmt \<Rightarrow> True | _ \<Rightarrow> False)
     (normal_lane (queue
        \<lparr>members = \<lparr>audio_mixer = \<lparr>master_volume = (1 :: real), audio_items = []\<rparr>,
                    image_mixer = \<lparr>image_items = []\<rparr>,
                    current_aspect_ratio = double_quotient 1 1, mixer_logged = []\<rparr>,
         queue = \<lparr>high_lane = [],
                  normal_lane = [mix_task
                    [(0, \<lparr>content = ''clip'',
                          transform = \<lparr>image_transform = \<lparr>layer_depth = 0\<rparr>,
                                       audio_transform = ()\<rparr>\<rparr>)]
                    \<lparr>width = 1280, height = 720, square_width = 1280,
                     square_height = 720, field_mode = progressive\<rparr>]\<rparr>\<rparr>))
   \<and> map_option fst (get_master_volume
        \<lparr>image_render = (\<lambda>items fmt. Inr (length items)),
         audio_render = (\<lambda>items volume fmt. Inr (length items))\<rparr>
        (execute
           (mixer_run \<lparr>image_render = (\<lambda>items fmt. Inr (length items)),
                       audio_render = (\<lambda>items volume fmt. Inr (length items))\<rparr>) 2
           (set_master_volume (3 / 10)
              \<lparr>members = \<lparr>audio_mixer = \<lparr>master_volume = (1 :: real), audio_items = []\<rparr>,
                          image_mixer = \<lparr>image_items = []\<rparr>,
                          current_aspect_ratio = double_quotient 1 1, mixer_logged = []\<rparr>,
               queue = \<lparr>high_lane = [],
                        normal_lane = [mix_task
                          [(0, \<lparr>content = ''clip'',
                                transform = \<lparr>image_transform = \<lparr>layer_depth = 0\<rparr>,
                                             audio_transform = ()\<rparr>\<rparr>)]
                          \<lparr>width = 1280, height = 720, square_width = 1280,
                           square_height = 720, field_mode = progressive\<rparr>]\<rparr>\<rparr>)))
     = Some (volume_result (3 / 10) :: (real, nat, nat) mixer_result)"
proof -
  let ?ops = "\<lparr>image_render = (\<lambda>items fmt. Inr (length items)),
               audio_render = (\<lambda>items volume fmt. Inr (length items))\<rparr>
              :: (string, unit, real, nat, nat) mixer_ops"
  let ?a = "\<lparr>members = \<lparr>audio_mixer = \<lparr>master_volume = (1 :: real), audio_items = []\<rparr>,
                        image_mixer = \<lparr>image_items = []\<rparr>,
                        current_aspect_ratio = double_quotient 1 1, mixer_logged = []\<rparr>,
             queue = \<lparr>high_lane = [],
                      normal_lane = [mix_task
                        [(0, \<lparr>content = ''clip'',
                              transform = \<lparr>image_transform = \<lparr>layer_depth = 0\<rparr>,
                                           audio_transform = ()\<rparr>\<rparr>)]
                        \<lparr>width = 1280, height = 720, square_width = 1280,
                         square_height = 720, field_mode = progressive\<rparr>]\<rparr>\<rparr>"
  have h: "\<forall>t \<in> set (normal_lane (queue ?a)).
             case t of mix_task frames fmt \<Rightarrow> True | _ \<Rightarrow> False"
    by simp
  from volume_read_after_write [OF h, of ?ops 2 "3 / 10"] show ?thesis
    by auto
qed

section \<open>Swapping twice\<close>

text \<open>
  C8, as stated, fails for an index that has no layer: \<^verbatim>\<open>layers_[index]\<close> creates a
  default-constructed layer there, and the second swap leaves it in place. In a Stage with no
  layers, after \<open>swap_layer 1 2\<close> twice the index 1 has a layer, where before it had none.
\<close>

theorem swap_layer_twice_counterexample:
  "map_of (layers (swap_layer named_layer_ops 1 2 (swap_layer named_layer_ops 1 2
      \<lparr>layers = [], transforms = [], logged = []\<rparr>))) 1
   \<noteq> map_of (layers \<lparr>layers = [], transforms = [], logged = []\<rparr>) 1"
  by (simp add: swap_layer_map_of)

text \<open>
  C8, amended: for every Stage state and every pair of indices \<open>i\<close> and \<open>j\<close> that both have a
  layer, \<open>swap_layer i j\<close> executed twice in succession restores the layer map. In general the
  double swap leaves every layer where it was, at \<open>i\<close> and \<open>j\<close> and at every other index, and an
  index among \<open>i\<close> and \<open>j\<close> that had no layer is left with a default-constructed one. The
  transforms are not swapped.
\<close>

theorem swap_layer_twice:
  "(\<forall>k. map_of (layers (swap_layer ops i j (swap_layer ops i j s))) k =
         (if (k = i \<or> k = j) \<and> map_of (layers s) k = None then Some (layer_default ops)
          else map_of (layers s) k))
   \<and> (i \<in> set (map_keys (layers s)) \<and> j \<in> set (map_keys (layers s))
        \<longrightarrow> map_of (layers (swap_layer ops i j (swap_layer ops i j s))) = map_of (layers s))
   \<and> transforms (swap_layer ops i j (swap_layer ops i j s)) = transforms s"
  by (auto simp: swap_layer_map_of swap_layer_transforms set_map_keys fun_eq_iff
      split: option.splits)

theorem swap_layer_twice_witness:
  "(1 :: int) \<in> set (map_keys [(1, ''a''), (2, ''b'')])
   \<and> (2 :: int) \<in> set (map_keys [(1, ''a''), (2, ''b'')])
   \<and> map_of (layers (swap_layer named_layer_ops 1 2 (swap_layer named_layer_ops 1 2
        \<lparr>layers = [(1, ''a''), (2, ''b'')], transforms = [], logged = []\<rparr>))) =
      map_of [(1, ''a''), (2, ''b'')]
   \<and> map_of (layers (swap_layer named_layer_ops 1 2
        \<lparr>layers = [(1, ''a''), (2, ''b'')], transforms = [], logged = []\<rparr>)) =
      map_of [(1, ''b''), (2, ''a'')]"
  using swap_layer_twice [of named_layer_ops 1 2
      "\<lparr>layers = [(1, ''a''), (2, ''b'')], transforms = [], logged = []\<rparr>"]
  by (simp add: map_keys_def swap_layer_map_of fun_eq_iff)

section \<open>Indices that are not there\<close>

text \<open>
  C9: for an index that has no layer, \<open>load\<close> creates the layer default-constructed and loads
  the producer into it, and \<open>foreground\<close>, \<open>background\<close> and \<open>info\<close> answer with what the
  default-constructed layer answers: their results have no case for a missing index, and the
  lookup leaves the default-constructed layer in the map. For an index that has no
  TweenedTransform, \<open>apply_transform\<close> creates it default-constructed, takes its snapshot as
  the source and stores the new TweenedTransform there.
\<close>

theorem missing_index_gets_default:
  "(map_of (layers s) i = None \<longrightarrow>
      map_of (layers (load ops i producer preview auto_play_delta s)) i =
        Some (layer_load ops (layer_default ops) producer preview auto_play_delta)
      \<and> fst (foreground ops i s) = layer_foreground ops (layer_default ops)
      \<and> map_of (layers (snd (foreground ops i s))) i = Some (layer_default ops)
      \<and> fst (background ops i s) = layer_background ops (layer_default ops)
      \<and> map_of (layers (snd (background ops i s))) i = Some (layer_default ops)
      \<and> fst (info ops i s) = layer_info ops (layer_default ops)
      \<and> map_of (layers (snd (info ops i s))) i = Some (layer_default ops))
   \<and> (map_of (transforms s) i = None \<longrightarrow>
      map_of (transforms (apply_transform i f mix_duration tween s)) i =
        Some (make_tweened_transform (fetch default_tweened_transform)
                (f (fetch default_tweened_transform)) mix_duration tween))"
  by (simp add: load_def foreground_def background_def info_def apply_transform_def
      map_index_def map_of_map_put Let_def)

theorem missing_index_gets_default_witness:
  "map_of (layers \<lparr>layers = [(1, ''a'')], transforms = [], logged = []\<rparr>) 2 = None
   \<and> map_of (transforms \<lparr>layers = [(1, ''a'')], transforms = [], logged = []\<rparr>) 2 = None
   \<and> layers (load named_layer_ops 2 ''b'' False 0
        \<lparr>layers = [(1, ''a'')], transforms = [], logged = []\<rparr>) = [(1, ''a''), (2, ''b'')]
   \<and> foreground named_layer_ops 2 \<lparr>layers = [(1, ''a'')], transforms = [], logged = []\<rparr> =
       ([], \<lparr>layers = [(1, ''a''), (2, [])], transforms = [], logged = []\<rparr>)
   \<and> map_keys (transforms (apply_transform 2 (\<lambda>t. t\<lparr>opacity := 0\<rparr>) 25 linear_tweener
        \<lparr>layers = [(1, ''a'')], transforms = [], logged = []\<rparr>)) = [2]"
  using missing_index_gets_default [of
      "\<lparr>layers = [(1, ''a'')], transforms = [], logged = []\<rparr>" 2 named_layer_ops
      "''b''" False 0 "\<lambda>t. t\<lparr>opacity := 0\<rparr>" 25 linear_tweener]
  by (simp add: load_def foreground_def apply_transform_def map_index_def
      named_layer_ops_def map_keys_def Let_def)

section \<open>The transforms after a fault\<close>

text \<open>
  C10: when the loop of a produce call throws, the \<^verbatim>\<open>catch\<close> block empties the layer map and
  leaves the transform map as the loop has left it: the transform map after the call is the
  one the exception found. No TweenedTransform is lost: every index that had one before the
  call has one after it, with the same source, destination, duration and easing, its elapsed
  ticks being those from before the call or advanced by the one or two ticks of this call's
  own production of its layer. Loading a layer afterwards does not touch the transform map,
  so the layer loaded at an index meets the transform that is there.
\<close>

theorem produce_fault_keeps_transforms:
  fixes ops :: "('l, 'p, 'r, 'i) layer_ops"
  assumes "distinct order"
      and "parallel_for_each (produce_layer ops fmt) order (s, empty_frames (layers s))
             = (Some e, s1, frames1)"
  shows "layers (snd (produce ops order fmt s)) = []
         \<and> transforms (snd (produce ops order fmt s)) = transforms s1
         \<and> (\<forall>k tt. map_of (transforms s) k = Some tt \<longrightarrow>
               (\<exists>tt'. map_of (transforms (snd (produce ops order fmt s))) k = Some tt'
                  \<and> source tt' = source tt \<and> dest tt' = dest tt
                  \<and> duration tt' = duration tt \<and> tweener tt' = tweener tt
                  \<and> (tt' = tt \<or> tt' = snd (fetch_and_tick 1 tt)
                      \<or> tt' = snd (fetch_and_tick 1 (snd (fetch_and_tick 1 tt))))))
         \<and> transforms (load ops i producer preview auto_play_delta (snd (produce ops order fmt s)))
             = transforms s1"
proof -
  note res = produce_thrown [OF assms(2)]
  have "\<exists>tt'. map_of (transforms s1) k = Some tt'
          \<and> source tt' = source tt \<and> dest tt' = dest tt
          \<and> duration tt' = duration tt \<and> tweener tt' = tweener tt
          \<and> (tt' = tt \<or> tt' = snd (fetch_and_tick 1 tt)
              \<or> tt' = snd (fetch_and_tick 1 (snd (fetch_and_tick 1 tt))))"
    if "map_of (transforms s) k = Some tt" for k tt
    using produce_loop_ticks [OF assms(2) assms(1) that]
    by (auto simp: tick_fields)
  with res show ?thesis
    by (simp add: load_def Let_def split: prod.splits)
qed

theorem produce_fault_keeps_transforms_witness:
  "distinct [0 :: int]
   \<and> parallel_for_each
        (produce_layer named_layer_ops
           \<lparr>width = 720, height = 576, square_width = 1024, square_height = 576,
            field_mode = upper\<rparr>) [0]
        (\<lparr>layers = [(0, ''fault'')],
           transforms = [(0, make_tweened_transform default_frame_transform
                               default_frame_transform 5 linear_tweener)],
           logged = []\<rparr>,
         empty_frames [(0, ''fault'')] :: string draw_frame std_map)
     = (Some (exception ''fault''),
        \<lparr>layers = [(0, ''fault'')],
         transforms = [(0, (make_tweened_transform default_frame_transform
                              default_frame_transform 5 linear_tweener)\<lparr>time := 1\<rparr>)],
         logged = []\<rparr>,
        [(0, empty_frame)])
   \<and> layers (snd (produce named_layer_ops [0]
          \<lparr>width = 720, height = 576, square_width = 1024, square_height = 576,
           field_mode = upper\<rparr>
          \<lparr>layers = [(0, ''fault'')],
           transforms = [(0, make_tweened_transform default_frame_transform
                               default_frame_transform 5 linear_tweener)],
           logged = []\<rparr>)) = []
   \<and> transforms (snd (produce named_layer_ops [0]
          \<lparr>width = 720, height = 576, square_width = 1024, square_height = 576,
           field_mode = upper\<rparr>
          \<lparr>layers = [(0, ''fault'')],
           transforms = [(0, make_tweened_transform default_frame_transform
                               default_frame_transform 5 linear_tweener)],
           logged = []\<rparr>))
     = [(0, (make_tweened_transform default_frame_transform default_frame_transform 5
               linear_tweener)\<lparr>time := 1\<rparr>)]"
proof -
  let ?fmt = "\<lparr>width = 720, height = 576, square_width = 1024, square_height = 576,
               field_mode = upper\<rparr>"
  let ?tt = "make_tweened_transform default_frame_transform default_frame_transform 5
               linear_tweener"
  let ?s = "\<lparr>layers = [(0, ''fault'')], transforms = [(0, ?tt)], logged = []\<rparr>"
  have d: "distinct [0 :: int]" by simp
  have f: "parallel_for_each (produce_layer named_layer_ops ?fmt) [0]
             (?s, empty_frames (layers ?s) :: string draw_frame std_map)
           = (Some (exception ''fault''),
              \<lparr>layers = [(0, ''fault'')], transforms = [(0, ?tt\<lparr>time := 1\<rparr>)],
               logged = []\<rparr>,
              [(0, empty_frame)])"
    by (simp add: produce_layer_def empty_frames_def map_index_def
        fetch_and_tick_def fetch_def named_layer_ops_def Let_def make_tweened_transform_def)
  from produce_fault_keeps_transforms [OF d f] f show ?thesis
    by simp
qed

end
